theory Spec2Isabelle
  imports Main "HOL-Library.AList"
begin

section \<open>JavaScript values\<close>

text \<open>
  The hook receives \<^verbatim>\<open>event.data\<close>, which the source only casts
  (\<^verbatim>\<open>event.data as HostToIframeMessage<TInputs>\<close>): at run time it is any value a
  window message can carry. The values are the JSON-like ones together with
  \<^verbatim>\<open>undefined\<close>. An object is the list of its own properties in insertion order;
  the keys of an object are distinct. Numbers are represented by integers: this code
  never calculates with a payload number, it only tests it for truthiness, and every
  non-zero number behaves there as a non-zero integer does (\<^verbatim>\<open>NaN\<close> is not
  represented). A string is a list of characters; the code compares strings with ASCII
  literals only.
\<close>

datatype jsval =
    JUndefined
  | JNull
  | JBool bool
  | JNum int
  | JStr string
  | JArr "jsval list"
  | JObj "(string \<times> jsval) list"

text \<open>A thrown value: an \<^verbatim>\<open>Error\<close> instance with its message, or anything else.\<close>

datatype thrown = ErrorObj string | NonError jsval

text \<open>Truthiness, as \<^verbatim>\<open>!x\<close>, \<^verbatim>\<open>x ? a : b\<close> and \<^verbatim>\<open>x || y\<close> test it.\<close>

fun truthy :: "jsval \<Rightarrow> bool" where
  "truthy JUndefined = False"
| "truthy JNull = False"
| "truthy (JBool b) = b"
| "truthy (JNum n) = (n \<noteq> 0)"
| "truthy (JStr s) = (s \<noteq> [])"
| "truthy (JArr xs) = True"
| "truthy (JObj ps) = True"

fun typeof :: "jsval \<Rightarrow> string" where
  "typeof JUndefined = ''undefined''"
| "typeof JNull = ''object''"
| "typeof (JBool b) = ''boolean''"
| "typeof (JNum n) = ''number''"
| "typeof (JStr s) = ''string''"
| "typeof (JArr xs) = ''object''"
| "typeof (JObj ps) = ''object''"

text \<open>\<^verbatim>\<open>a || b\<close> and \<^verbatim>\<open>a ?? b\<close>.\<close>

definition js_or :: "jsval \<Rightarrow> jsval \<Rightarrow> jsval" where
  "js_or a b = (if truthy a then a else b)"

definition nullish :: "jsval \<Rightarrow> bool" where
  "nullish v = (v = JUndefined \<or> v = JNull)"

definition js_coalesce :: "jsval \<Rightarrow> jsval \<Rightarrow> jsval" where
  "js_coalesce a b = (if nullish a then b else a)"

text \<open>
  The value of a property \<^verbatim>\<open>v.k\<close> of a value that is neither \<^verbatim>\<open>undefined\<close> nor
  \<^verbatim>\<open>null\<close>, for the property names this code reads (\<^verbatim>\<open>type\<close>, \<^verbatim>\<open>payload\<close>,
  \<^verbatim>\<open>runId\<close>, \<^verbatim>\<open>inputs\<close>, \<^verbatim>\<open>context\<close>, \<^verbatim>\<open>renderMode\<close>, \<^verbatim>\<open>code\<close>,
  \<^verbatim>\<open>message\<close>, \<^verbatim>\<open>details\<close>): none of them is a built-in property of a string,
  number, boolean, array or of \<^verbatim>\<open>Object.prototype\<close>, so only an object's own
  properties can answer, and a missing property reads as \<^verbatim>\<open>undefined\<close>.
\<close>

fun lookup_prop :: "jsval \<Rightarrow> string \<Rightarrow> jsval" where
  "lookup_prop (JObj ps) k = (case map_of ps k of Some v \<Rightarrow> v | None \<Rightarrow> JUndefined)"
| "lookup_prop v k = JUndefined"

text \<open>
  Reading a property of \<^verbatim>\<open>undefined\<close> or \<^verbatim>\<open>null\<close>, and destructuring one of them,
  throws a TypeError. The message texts are V8's; another engine words them differently,
  and nothing below depends on the wording.
\<close>

definition null_or_undefined :: "jsval \<Rightarrow> string" where
  "null_or_undefined v = (if v = JNull then ''null'' else ''undefined'')"

definition type_error_read :: "jsval \<Rightarrow> string \<Rightarrow> thrown" where
  "type_error_read v k =
     ErrorObj (''Cannot read properties of '' @ null_or_undefined v
               @ '' (reading '' @ [CHR 0x27] @ k @ [CHR 0x27] @ '')'')"

definition type_error_destructure :: "jsval \<Rightarrow> string \<Rightarrow> string \<Rightarrow> thrown" where
  "type_error_destructure v k expr =
     ErrorObj (''Cannot destructure property '' @ [CHR 0x27] @ k @ [CHR 0x27]
               @ '' of '' @ [CHR 0x27] @ expr @ [CHR 0x27]
               @ '' as it is '' @ null_or_undefined v @ ''.'')"

text \<open>
  \<^verbatim>\<open>v.startsWith(p)\<close>: only a string has the method. On every other value the
  property is \<^verbatim>\<open>undefined\<close> (a window message cannot carry a function), and calling
  it throws a TypeError.
\<close>

fun startsWith :: "jsval \<Rightarrow> string \<Rightarrow> thrown + bool" where
  "startsWith (JStr s) p = Inr (take (length p) s = p)"
| "startsWith v p = Inl (ErrorObj ''message.type.startsWith is not a function'')"

text \<open>Decimal rendering of a natural number, as a template literal renders it.\<close>

definition digit_char :: "nat \<Rightarrow> char" where
  "digit_char d = ''0123456789'' ! d"

function string_of_nat :: "nat \<Rightarrow> string" where
  "string_of_nat n =
     (if n < 10 then [digit_char n]
      else string_of_nat (n div 10) @ [digit_char (n mod 10)])"
  by pat_completeness auto
termination
  by (relation "measure (\<lambda>n. n)") auto

declare string_of_nat.simps [simp del]

text \<open>
  Object spread \<^verbatim>\<open>{ ...a, ...b }\<close>: a fresh object receives the own enumerable
  properties of \<^verbatim>\<open>a\<close>, then those of \<^verbatim>\<open>b\<close>, each by assignment in the source's
  order; an assignment to a key already present replaces its value in place. An array
  and a string contribute their indexed elements, every other primitive nothing.
\<close>

definition index_props :: "jsval list \<Rightarrow> (string \<times> jsval) list" where
  "index_props xs = zip (map string_of_nat [0..<length xs]) xs"

fun own_props :: "jsval \<Rightarrow> (string \<times> jsval) list" where
  "own_props (JObj ps) = ps"
| "own_props (JArr xs) = index_props xs"
| "own_props (JStr s) = index_props (map (\<lambda>c. JStr [c]) s)"
| "own_props v = []"

definition assign_props :: "(string \<times> jsval) list \<Rightarrow> (string \<times> jsval) list \<Rightarrow> (string \<times> jsval) list" where
  "assign_props target src = fold (\<lambda>(k, v). AList.update k v) src target"

definition spread2 :: "jsval \<Rightarrow> jsval \<Rightarrow> jsval" where
  "spread2 a b = JObj (assign_props (assign_props [] (own_props a)) (own_props b))"

section \<open>The hook \<^verbatim>\<open>useBrixelTask\<close>\<close>

text \<open>
  The status literals \<^verbatim>\<open>"initializing"\<close>, \<^verbatim>\<open>"ready"\<close>, \<^verbatim>\<open>"completed"\<close>,
  \<^verbatim>\<open>"cancelled"\<close> and \<^verbatim>\<open>"error"\<close>; the hook never sets the last one.
\<close>

datatype TaskStatus = Initializing | Ready | Completed | Cancelled | Errored

text \<open>
  The options of the hook. The two callbacks are code of the embedding application: the
  model records whether one is registered and, below, each invocation with its argument.
\<close>

record UseBrixelTaskOptions =
  targetOrigin :: string
  onInputsUpdate :: bool
  onDestroy :: bool
  debug :: bool

text \<open>
  The window the hook posts to: \<^verbatim>\<open>window.parent\<close> inside an iframe,
  \<^verbatim>\<open>window\<close> itself otherwise.
\<close>

datatype window = ParentWindow | SelfWindow

text \<open>
  The React state (\<^verbatim>\<open>useState\<close>) and the refs (\<^verbatim>\<open>useRef\<close>) of one hook instance.
  The callbacks \<^verbatim>\<open>complete\<close>, \<^verbatim>\<open>cancel\<close>, \<^verbatim>\<open>setHeight\<close> and \<^verbatim>\<open>log\<close> close over
  \<^verbatim>\<open>runId\<close>; the model is of the callbacks of the latest render, which read the current
  value. The field \<open>context'\<close> is the source's \<^verbatim>\<open>context\<close>, a word Isabelle reserves.
\<close>

record Hook =
  inputs :: jsval
  context' :: jsval
  status :: TaskStatus
  renderMode :: jsval
  runId :: jsval
  isEmbedded :: bool
  parentWindow :: "window option"
  hasCompleted :: bool

text \<open>
  What a call does to the outside: a message posted to a window with a target origin,
  a line on the local console, an invocation of a registered callback.
\<close>

datatype effect =
    PostMessage window jsval string
  | ConsoleLog string jsval
  | ConsoleError string
  | InputsUpdateCall jsval
  | DestroyCall

fun is_post :: "effect \<Rightarrow> bool" where
  "is_post (PostMessage w m origin) = True"
| "is_post e = False"

fun is_callback :: "effect \<Rightarrow> bool" where
  "is_callback (InputsUpdateCall v) = True"
| "is_callback DestroyCall = True"
| "is_callback e = False"

fun is_console :: "effect \<Rightarrow> bool" where
  "is_console (ConsoleLog t v) = True"
| "is_console (ConsoleError t) = True"
| "is_console e = False"

text \<open>The envelopes a list of effects sends over the channel.\<close>

definition outbound :: "effect list \<Rightarrow> effect list" where
  "outbound es = filter is_post es"

definition callbacks :: "effect list \<Rightarrow> effect list" where
  "callbacks es = filter is_callback es"

definition debugLog :: "UseBrixelTaskOptions \<Rightarrow> string \<Rightarrow> jsval \<Rightarrow> effect list" where
  "debugLog opts message data =
     (if debug opts then [ConsoleLog (''[BrixelSDK] '' @ message) (js_coalesce data (JStr ''''))]
      else [])"

definition postToParent :: "UseBrixelTaskOptions \<Rightarrow> Hook \<Rightarrow> jsval \<Rightarrow> effect list" where
  "postToParent opts s message =
     (case parentWindow s of
        Some w \<Rightarrow> debugLog opts ''Sending message to parent:'' message
                  @ [PostMessage w message (targetOrigin opts)]
      | None \<Rightarrow> debugLog opts ''Cannot send message - no parent window'' JUndefined)"

text \<open>The object literal \<^verbatim>\<open>{ type: t, payload: { ... } }\<close>.\<close>

definition envelope :: "string \<Rightarrow> (string \<times> jsval) list \<Rightarrow> jsval" where
  "envelope t p = JObj [(''type'', JStr t), (''payload'', JObj p)]"

definition complete :: "UseBrixelTaskOptions \<Rightarrow> jsval \<Rightarrow> Hook \<Rightarrow> Hook \<times> effect list" where
  "complete opts output s =
     (if hasCompleted s then
        (s, debugLog opts ''Already completed, ignoring duplicate complete call'' JUndefined)
      else if \<not> truthy (runId s) then
        (s, [ConsoleError ''[BrixelSDK] Cannot complete - no runId''])
      else
        (s\<lparr>hasCompleted := True, status := Completed\<rparr>,
         postToParent opts s
           (envelope ''BRIXEL_COMPLETE'' [(''runId'', runId s), (''output'', output)])
         @ debugLog opts ''Task completed with output:'' output))"

definition cancel :: "UseBrixelTaskOptions \<Rightarrow> jsval \<Rightarrow> Hook \<Rightarrow> Hook \<times> effect list" where
  "cancel opts reason s =
     (if hasCompleted s then
        (s, debugLog opts ''Already completed, ignoring cancel call'' JUndefined)
      else if \<not> truthy (runId s) then
        (s, [ConsoleError ''[BrixelSDK] Cannot cancel - no runId''])
      else
        (s\<lparr>hasCompleted := True, status := Cancelled\<rparr>,
         postToParent opts s
           (envelope ''BRIXEL_CANCEL'' [(''runId'', runId s), (''reason'', reason)])
         @ debugLog opts ''Task cancelled:'' reason))"

definition setHeight :: "UseBrixelTaskOptions \<Rightarrow> jsval \<Rightarrow> Hook \<Rightarrow> Hook \<times> effect list" where
  "setHeight opts height s =
     (if \<not> truthy (runId s) then (s, [])
      else
        (s,
         postToParent opts s
           (envelope ''BRIXEL_RESIZE'' [(''runId'', runId s), (''height'', height)])
         @ debugLog opts ''Resize requested:'' height))"

definition log :: "UseBrixelTaskOptions \<Rightarrow> jsval \<Rightarrow> jsval \<Rightarrow> jsval \<Rightarrow> Hook \<Rightarrow> Hook \<times> effect list" where
  "log opts level message data s =
     (if \<not> truthy (runId s) then (s, [])
      else
        (s,
         postToParent opts s
           (envelope ''BRIXEL_LOG''
              [(''runId'', runId s), (''level'', level), (''message'', message), (''data'', data)])))"

text \<open>
  The message handler either returns or throws; in both cases it leaves a state and the
  effects it had until then.
\<close>

datatype outcome = Returns Hook "effect list" | Throws thrown Hook "effect list"

fun state_of :: "outcome \<Rightarrow> Hook" where
  "state_of (Returns s es) = s"
| "state_of (Throws e s es) = s"

fun effects_of :: "outcome \<Rightarrow> effect list" where
  "effects_of (Returns s es) = es"
| "effects_of (Throws e s es) = es"

fun throws :: "outcome \<Rightarrow> bool" where
  "throws (Returns s es) = False"
| "throws (Throws e s es) = True"

text \<open>
  The three cases of the \<^verbatim>\<open>switch\<close>. Destructuring \<^verbatim>\<open>message.payload\<close> throws when
  the payload is \<^verbatim>\<open>undefined\<close> or \<^verbatim>\<open>null\<close>, before any state is set; the first
  property of the pattern is the one the error names.
\<close>

definition handleInit :: "UseBrixelTaskOptions \<Rightarrow> jsval \<Rightarrow> Hook \<Rightarrow> effect list \<Rightarrow> outcome" where
  "handleInit opts payload s es =
     (if nullish payload then Throws (type_error_destructure payload ''runId'' ''message.payload'') s es
      else
        (let newRunId = lookup_prop payload ''runId'';
             newInputs = lookup_prop payload ''inputs'';
             newContext = lookup_prop payload ''context'';
             mode = lookup_prop payload ''renderMode''
         in Returns
              (s\<lparr>runId := newRunId, inputs := newInputs, context' := newContext,
                 renderMode := mode, status := Ready, hasCompleted := False\<rparr>)
              (es @ debugLog opts ''Initialized with:''
                      (JObj [(''runId'', newRunId), (''inputs'', newInputs),
                             (''context'', newContext)]))))"

definition handleUpdateInputs :: "UseBrixelTaskOptions \<Rightarrow> jsval \<Rightarrow> Hook \<Rightarrow> effect list \<Rightarrow> outcome" where
  "handleUpdateInputs opts payload s es =
     (if nullish payload then Throws (type_error_destructure payload ''inputs'' ''message.payload'') s es
      else
        (let updatedInputs = lookup_prop payload ''inputs''
         in Returns
              (s\<lparr>inputs := (if truthy (inputs s) then spread2 (inputs s) updatedInputs
                             else updatedInputs)\<rparr>)
              (es @ (if onInputsUpdate opts then [InputsUpdateCall updatedInputs] else [])
                  @ debugLog opts ''Inputs updated:'' updatedInputs)))"

definition handleDestroy :: "UseBrixelTaskOptions \<Rightarrow> Hook \<Rightarrow> effect list \<Rightarrow> outcome" where
  "handleDestroy opts s es =
     Returns s (es @ (if onDestroy opts then [DestroyCall] else [])
                   @ debugLog opts ''Destroy received'' JUndefined)"

text \<open>
  The handler. After the first check the message is an object (or an array), so reading
  its \<^verbatim>\<open>type\<close> and \<^verbatim>\<open>payload\<close> does not throw.
\<close>

definition handleMessage :: "UseBrixelTaskOptions \<Rightarrow> jsval \<Rightarrow> Hook \<Rightarrow> outcome" where
  "handleMessage opts message s =
     (if \<not> truthy message \<or> typeof message \<noteq> ''object''
         \<or> \<not> truthy (lookup_prop message ''type'')
      then Returns s []
      else
        (case startsWith (lookup_prop message ''type'') ''BRIXEL_'' of
           Inl e \<Rightarrow> Throws e s []
         | Inr prefixed \<Rightarrow>
             if \<not> prefixed then Returns s []
             else
               (let es = debugLog opts ''Received message:'' message in
                if lookup_prop message ''type'' = JStr ''BRIXEL_INIT'' then
                  handleInit opts (lookup_prop message ''payload'') s es
                else if lookup_prop message ''type'' = JStr ''BRIXEL_UPDATE_INPUTS'' then
                  handleUpdateInputs opts (lookup_prop message ''payload'') s es
                else if lookup_prop message ''type'' = JStr ''BRIXEL_DESTROY'' then
                  handleDestroy opts s es
                else Returns s es)))"

text \<open>
  The first render and its effect: the initial values of the state and the refs, then
  the parent window is chosen, and \<^verbatim>\<open>BRIXEL_READY\<close> is posted.
\<close>

definition SDK_VERSION :: string where
  "SDK_VERSION = ''1.0.0''"

definition initial :: "bool \<Rightarrow> Hook" where
  "initial inIframe =
     \<lparr>inputs = JNull, context' = JNull, status = Initializing, renderMode = JNull,
      runId = JNull, isEmbedded = inIframe, parentWindow = None, hasCompleted = False\<rparr>"

definition mount :: "UseBrixelTaskOptions \<Rightarrow> bool \<Rightarrow> Hook \<times> effect list" where
  "mount opts inIframe =
     (let s = (initial inIframe)
                \<lparr>parentWindow := Some (if inIframe then ParentWindow else SelfWindow)\<rparr>
      in (s,
          (if \<not> inIframe
           then debugLog opts
                  ''Not in iframe, SDK will work in standalone mode (dev tools compatible)''
                  JUndefined
           else [])
          @ postToParent opts s (envelope ''BRIXEL_READY'' [(''version'', JStr SDK_VERSION)])
          @ debugLog opts ''SDK initialized, READY sent'' JUndefined))"

text \<open>
  Everything that can happen to a mounted hook: a window message is delivered, or the
  embedding component calls one of the four functions the hook returned. A handler that
  throws leaves the state it had reached.
\<close>

datatype event =
    Deliver jsval
  | CallComplete jsval
  | CallCancel jsval
  | CallSetHeight jsval
  | CallLog jsval jsval jsval

fun step :: "UseBrixelTaskOptions \<Rightarrow> event \<Rightarrow> Hook \<Rightarrow> Hook \<times> effect list" where
  "step opts (Deliver m) s = (state_of (handleMessage opts m s), effects_of (handleMessage opts m s))"
| "step opts (CallComplete output) s = complete opts output s"
| "step opts (CallCancel reason) s = cancel opts reason s"
| "step opts (CallSetHeight height) s = setHeight opts height s"
| "step opts (CallLog level message data) s = log opts level message data s"

fun run :: "UseBrixelTaskOptions \<Rightarrow> event list \<Rightarrow> Hook \<times> effect list \<Rightarrow> Hook \<times> effect list" where
  "run opts [] acc = acc"
| "run opts (ev # evs) (s, es) =
     (case step opts ev s of (s', es') \<Rightarrow> run opts evs (s', es @ es'))"

section \<open>The remote invocation \<^verbatim>\<open>executeTask\<close>\<close>

text \<open>
  The parameters, as \<^verbatim>\<open>types.ts\<close> declares them; \<open>taskInputs\<close> is the source's
  \<^verbatim>\<open>inputs\<close>.
\<close>

record ExecuteTaskParams =
  taskUuid :: string
  taskInputs :: jsval
  conversationId :: "string option"
  apiToken :: "string option"
  apiBaseUrl :: "string option"

text \<open>
  The argument is \<^verbatim>\<open>window.location.hostname\<close>, or \<open>None\<close> where there is no
  \<^verbatim>\<open>window\<close>.
\<close>

definition getApiBaseUrl :: "string option \<Rightarrow> string" where
  "getApiBaseUrl hostname =
     (case hostname of
        Some h \<Rightarrow>
          if h = ''localhost'' \<or> h = ''127.0.0.1''
          then ''http://localhost:8000/backoffice/ui-components''
          else ''https://api.brixel.ai/backoffice/ui-components''
      | None \<Rightarrow> ''https://api.brixel.ai/backoffice/ui-components'')"

text \<open>
  An optional string parameter is tested for truthiness (\<^verbatim>\<open>if (apiToken)\<close>,
  \<^verbatim>\<open>apiBaseUrl || ...\<close>): it counts when it is present and not the empty string.
\<close>

definition provided :: "string option \<Rightarrow> bool" where
  "provided x = (case x of None \<Rightarrow> False | Some v \<Rightarrow> v \<noteq> [])"

datatype credentials = SameOrigin | Include

text \<open>
  The arguments of the call of \<^verbatim>\<open>fetch\<close>: \<open>httpMethod\<close> is \<^verbatim>\<open>method\<close> and
  \<open>credentialsMode\<close> is \<^verbatim>\<open>credentials\<close>. The body is the object given to
  \<^verbatim>\<open>JSON.stringify\<close>; its serialisation is not modelled.
\<close>

record Request =
  url :: string
  httpMethod :: string
  headers :: "(string \<times> string) list"
  credentialsMode :: credentials
  body :: jsval

definition fetchRequest :: "string option \<Rightarrow> ExecuteTaskParams \<Rightarrow> Request" where
  "fetchRequest hostname params =
     (let baseUrl = (if provided (apiBaseUrl params) then the (apiBaseUrl params)
                     else getApiBaseUrl hostname);
          headers0 = [(''Content-Type'', ''application/json'')];
          headers1 = (if provided (apiToken params)
                      then AList.update ''Authorization'' (''Bearer '' @ the (apiToken params)) headers0
                      else headers0);
          headers2 = (if provided (conversationId params)
                      then AList.update ''x-conversation-id'' (the (conversationId params)) headers1
                      else headers1)
      in \<lparr>url = baseUrl @ ''/execute_task'',
          httpMethod = ''POST'',
          headers = headers2,
          credentialsMode = (if provided (apiToken params) then SameOrigin else Include),
          body = JObj [(''task_uuid'', JStr (taskUuid params)), (''inputs'', taskInputs params)]\<rparr>)"

text \<open>
  What the network answers: \<^verbatim>\<open>fetch\<close> rejects, or resolves to a response with a
  status (\<^verbatim>\<open>response.status\<close>) and a body. The field \<open>json\<close> is what
  \<^verbatim>\<open>response.json()\<close> settles to: the parsed body, or the rejection when the body is
  not JSON. \<^verbatim>\<open>response.ok\<close> holds for the statuses 200 to 299.
\<close>

record Response =
  httpStatus :: nat
  json :: "thrown + jsval"

definition ok :: "Response \<Rightarrow> bool" where
  "ok response = (200 \<le> httpStatus response \<and> httpStatus response \<le> 299)"

datatype fetched = Rejects thrown | Resolves Response

record ErrorInfo =
  code :: jsval
  message :: jsval
  details :: "thrown + jsval"

record ExecuteTaskResponse =
  success :: bool
  data :: "jsval option"
  error :: "ErrorInfo option"

text \<open>The body of the \<^verbatim>\<open>try\<close> block; \<open>Inl\<close> is a throw inside it.\<close>

definition executeTaskTry :: "string option \<Rightarrow> (Request \<Rightarrow> fetched) \<Rightarrow> ExecuteTaskParams \<Rightarrow> thrown + ExecuteTaskResponse" where
  "executeTaskTry hostname fetch params =
     (case fetch (fetchRequest hostname params) of
        Rejects e \<Rightarrow> Inl e
      | Resolves response \<Rightarrow>
     (case json response of
        Inl e \<Rightarrow> Inl e
      | Inr d \<Rightarrow>
          if \<not> ok response then
            (if nullish d then Inl (type_error_read d ''code'')
             else
               Inr \<lparr>success = False, data = None,
                    error = Some
                      \<lparr>code = js_or (lookup_prop d ''code'')
                                (JStr (''HTTP_'' @ string_of_nat (httpStatus response))),
                       message = js_or (lookup_prop d ''message'')
                                   (JStr (''Request failed with status ''
                                          @ string_of_nat (httpStatus response))),
                       details = Inr (js_or (lookup_prop d ''details'') d)\<rparr>\<rparr>)
          else Inr \<lparr>success = True, data = Some d, error = None\<rparr>))"

text \<open>The \<^verbatim>\<open>catch\<close> block.\<close>

definition executeTaskCatch :: "thrown \<Rightarrow> ExecuteTaskResponse" where
  "executeTaskCatch e =
     \<lparr>success = False, data = None,
      error = Some
        \<lparr>code = JStr ''NETWORK_ERROR'',
         message = JStr (case e of ErrorObj m \<Rightarrow> m | NonError v \<Rightarrow> ''Unknown error occurred''),
         details = Inl e\<rparr>\<rparr>"

text \<open>
  What the promise of \<^verbatim>\<open>executeTask\<close> settles to: \<open>Inr\<close> a result it resolves to,
  \<open>Inl\<close> a rejection.
\<close>

definition executeTask :: "string option \<Rightarrow> (Request \<Rightarrow> fetched) \<Rightarrow> ExecuteTaskParams \<Rightarrow> thrown + ExecuteTaskResponse" where
  "executeTask hostname fetch params =
     (case executeTaskTry hostname fetch params of
        Inl e \<Rightarrow> Inr (executeTaskCatch e)
      | Inr r \<Rightarrow> Inr r)"

text \<open>\<^verbatim>\<open>createExecuteTask\<close>: the three context values replace those of the call.\<close>

record ContextAuth =
  authApiToken :: "string option"
  authConversationId :: "string option"
  authApiBaseUrl :: "string option"

definition createExecuteTask :: "ContextAuth option \<Rightarrow> string option \<Rightarrow> (Request \<Rightarrow> fetched) \<Rightarrow> ExecuteTaskParams \<Rightarrow> thrown + ExecuteTaskResponse" where
  "createExecuteTask contextAuth hostname fetch params =
     executeTask hostname fetch
       (params\<lparr>apiToken := (case contextAuth of None \<Rightarrow> None | Some a \<Rightarrow> authApiToken a),
               conversationId := (case contextAuth of None \<Rightarrow> None | Some a \<Rightarrow> authConversationId a),
               apiBaseUrl := (case contextAuth of None \<Rightarrow> None | Some a \<Rightarrow> authApiBaseUrl a)\<rparr>)"

text \<open>The messages of the host, as \<^verbatim>\<open>types.ts\<close> declares them.\<close>

definition InitMessage :: "jsval \<Rightarrow> jsval \<Rightarrow> jsval \<Rightarrow> jsval \<Rightarrow> jsval" where
  "InitMessage r i c m =
     envelope ''BRIXEL_INIT'' [(''runId'', r), (''inputs'', i), (''context'', c), (''renderMode'', m)]"

definition UpdateInputsMessage :: "jsval \<Rightarrow> jsval \<Rightarrow> jsval" where
  "UpdateInputsMessage r i = envelope ''BRIXEL_UPDATE_INPUTS'' [(''runId'', r), (''inputs'', i)]"

definition DestroyMessage :: "jsval \<Rightarrow> jsval" where
  "DestroyMessage r = envelope ''BRIXEL_DESTROY'' [(''runId'', r)]"

section \<open>Events and fixtures used by the statements\<close>

text \<open>The calls that try to finish a Run.\<close>

fun finishing :: "event \<Rightarrow> bool" where
  "finishing (CallComplete output) = True"
| "finishing (CallCancel reason) = True"
| "finishing ev = False"

text \<open>
  A hook mounted inside an iframe with default options and both callbacks registered,
  and the same hook after the host initialised Run \<^verbatim>\<open>run-1\<close> with inputs
  \<^verbatim>\<open>{a: 1, b: 2}\<close>.
\<close>

definition example_options :: UseBrixelTaskOptions where
  "example_options = \<lparr>targetOrigin = ''*'', onInputsUpdate = True, onDestroy = True, debug = False\<rparr>"

definition example_mounted :: Hook where
  "example_mounted = fst (mount example_options True)"

definition example_ready :: Hook where
  "example_ready =
     fst (run example_options
            [Deliver (InitMessage (JStr ''run-1'') (JObj [(''a'', JNum 1), (''b'', JNum 2)])
                        JNull (JStr ''interaction''))]
            (mount example_options True))"

text \<open>The hook after Run \<^verbatim>\<open>run-1\<close> was completed with output \<^verbatim>\<open>"A"\<close>.\<close>

definition example_completed :: Hook where
  "example_completed = fst (complete example_options (JStr ''A'') example_ready)"

text \<open>
  A call with a token and a conversation id and no override of the base URL, a call
  with nothing optional, and two answers of the network: a 404 with the JSON body
  \<^verbatim>\<open>{"message": "not found"}\<close>, and a 502 whose body is an HTML page, so that
  \<^verbatim>\<open>response.json()\<close> rejects with a SyntaxError.
\<close>

definition example_params :: ExecuteTaskParams where
  "example_params =
     \<lparr>taskUuid = ''task-123'', taskInputs = JObj [(''name'', JStr ''John'')],
      conversationId = Some ''conv-1'', apiToken = Some ''tok'', apiBaseUrl = None\<rparr>"

definition example_params_bare :: ExecuteTaskParams where
  "example_params_bare =
     \<lparr>taskUuid = ''task-123'', taskInputs = JObj [(''name'', JStr ''John'')],
      conversationId = None, apiToken = None, apiBaseUrl = None\<rparr>"

definition example_not_found :: Response where
  "example_not_found = \<lparr>httpStatus = 404, json = Inr (JObj [(''message'', JStr ''not found'')])\<rparr>"

definition example_bad_gateway :: Response where
  "example_bad_gateway =
     \<lparr>httpStatus = 502, json = Inl (ErrorObj ''Unexpected token < in JSON at position 0'')\<rparr>"

section \<open>Auxiliary facts\<close>

subsection \<open>Object spread\<close>

lemma map_of_rev_distinct: "distinct (map fst xs) \<Longrightarrow> map_of (rev xs) = map_of xs"
proof (induction xs)
  case Nil
  then show ?case by simp
next
  case (Cons x xs)
  obtain k v where x: "x = (k, v)" by (cases x)
  from Cons.prems x have notin: "k \<notin> fst ` set xs" and d: "distinct (map fst xs)" by auto
  have "map_of (rev (x # xs)) = map_of [x] ++ map_of (rev xs)"
    by (simp add: map_of_append del: map_of.simps)
  hence "map_of (rev (x # xs)) = map_of [x] ++ map_of xs" using Cons.IH[OF d] by simp
  moreover have "k \<notin> dom (map_of xs)" using notin by (simp add: dom_map_of_conv_image_fst)
  hence "map_of [x] ++ map_of xs = (map_of xs)(k \<mapsto> v)"
    unfolding x by (auto simp: map_add_def fun_eq_iff split: option.splits)
  ultimately show ?case using x by simp
qed

lemma map_of_assign_props: "map_of (assign_props target src) = map_of target ++ map_of (rev src)"
proof (induction src arbitrary: target)
  case Nil
  then show ?case by (simp add: assign_props_def)
next
  case (Cons x src)
  obtain k v where x: "x = (k, v)" by (cases x)
  have "assign_props target (x # src) = assign_props (AList.update k v target) src"
    by (simp add: assign_props_def x)
  hence "map_of (assign_props target (x # src)) = map_of (AList.update k v target) ++ map_of (rev src)"
    using Cons.IH[of "AList.update k v target"] by simp
  also have "\<dots> = (map_of target)(k \<mapsto> v) ++ map_of (rev src)"
    by (simp only: update_conv')
  also have "\<dots> = map_of target ++ map_of (rev (x # src))"
    by (auto simp: x map_of_append map_add_def fun_eq_iff split: option.splits)
  finally show ?case .
qed

lemma distinct_assign_props:
  "distinct (map fst target) \<Longrightarrow> distinct (map fst (assign_props target src))"
proof (induction src arbitrary: target)
  case Nil
  then show ?case by (simp add: assign_props_def)
next
  case (Cons x src)
  obtain k v where x: "x = (k, v)" by (cases x)
  have "assign_props target (x # src) = assign_props (AList.update k v target) src"
    by (simp add: assign_props_def x)
  thus ?case using Cons.IH[of "AList.update k v target"] Cons.prems
    by (simp add: distinct_update)
qed

lemma spread2_objects:
  assumes "distinct (map fst prev)" "distinct (map fst part)"
  shows "map_of (own_props (spread2 (JObj prev) (JObj part))) = map_of prev ++ map_of part"
    and "distinct (map fst (own_props (spread2 (JObj prev) (JObj part))))"
  using assms
  by (simp_all add: spread2_def map_of_assign_props map_of_rev_distinct distinct_assign_props)

lemma spread2_is_object: "spread2 a b = JObj (own_props (spread2 a b))"
  by (simp add: spread2_def)

subsection \<open>Effects\<close>

lemma outbound_debugLog [simp]: "outbound (debugLog opts t v) = []"
  by (simp add: outbound_def debugLog_def)

lemma callbacks_debugLog [simp]: "callbacks (debugLog opts t v) = []"
  by (simp add: callbacks_def debugLog_def)

lemma outbound_append [simp]: "outbound (xs @ ys) = outbound xs @ outbound ys"
  by (simp add: outbound_def)

lemma callbacks_append [simp]: "callbacks (xs @ ys) = callbacks xs @ callbacks ys"
  by (simp add: callbacks_def)

lemma outbound_simps [simp]:
  "outbound [] = []"
  "outbound (PostMessage w m origin # es) = PostMessage w m origin # outbound es"
  "outbound (ConsoleLog t v # es) = outbound es"
  "outbound (ConsoleError t # es) = outbound es"
  "outbound (InputsUpdateCall v # es) = outbound es"
  "outbound (DestroyCall # es) = outbound es"
  by (simp_all add: outbound_def)

lemma callbacks_simps [simp]:
  "callbacks [] = []"
  "callbacks (PostMessage w m origin # es) = callbacks es"
  "callbacks (ConsoleLog t v # es) = callbacks es"
  "callbacks (ConsoleError t # es) = callbacks es"
  "callbacks (InputsUpdateCall v # es) = InputsUpdateCall v # callbacks es"
  "callbacks (DestroyCall # es) = DestroyCall # callbacks es"
  by (simp_all add: callbacks_def)

lemma console_debugLog [simp]: "list_all is_console (debugLog opts t v)"
  by (simp add: debugLog_def)

lemma debugLog_off [simp]: "\<not> debug opts \<Longrightarrow> debugLog opts t v = []"
  by (simp add: debugLog_def)

lemma outbound_postToParent:
  "outbound (postToParent opts s m) =
     (case parentWindow s of Some w \<Rightarrow> [PostMessage w m (targetOrigin opts)] | None \<Rightarrow> [])"
  by (simp add: postToParent_def split: option.splits)

subsection \<open>Calls and runs\<close>

lemma guarded_step:
  assumes "hasCompleted s \<or> \<not> truthy (runId s)" "finishing ev"
  shows "fst (step opts ev s) = s"
    and "outbound (snd (step opts ev s)) = []"
    and "callbacks (snd (step opts ev s)) = []"
    and "list_all is_console (snd (step opts ev s))"
  using assms by (cases ev; auto simp: complete_def cancel_def)+

lemma done_step_silent:
  assumes "hasCompleted s" "finishing ev" "\<not> debug opts"
  shows "snd (step opts ev s) = []"
  using assms by (cases ev; simp add: complete_def cancel_def)

lemma finishing_step:
  assumes "finishing ev"
  shows "hasCompleted (fst (step opts ev s)) \<or> \<not> truthy (runId (fst (step opts ev s)))"
    and "length (outbound (snd (step opts ev s))) \<le> 1"
  using assms
  by (cases ev; auto simp: complete_def cancel_def outbound_postToParent split: option.splits)+

lemma run_snd_acc: "snd (run opts evs (s, es)) = es @ snd (run opts evs (s, []))"
proof (induction evs arbitrary: s es)
  case Nil
  then show ?case by simp
next
  case (Cons ev evs)
  obtain s' es' where st: "step opts ev s = (s', es')" by (cases "step opts ev s")
  have "snd (run opts (ev # evs) (s, es)) = (es @ es') @ snd (run opts evs (s', []))"
    using Cons.IH[of s' "es @ es'"] by (simp add: st)
  moreover have "snd (run opts (ev # evs) (s, [])) = es' @ snd (run opts evs (s', []))"
    using Cons.IH[of s' es'] by (simp add: st)
  ultimately show ?case by simp
qed

lemma run_fst_acc: "fst (run opts evs (s, es)) = fst (run opts evs (s, []))"
proof (induction evs arbitrary: s es)
  case Nil
  then show ?case by simp
next
  case (Cons ev evs)
  obtain s' es' where st: "step opts ev s = (s', es')" by (cases "step opts ev s")
  show ?case using Cons.IH[of s' "es @ es'"] Cons.IH[of s' es'] by (simp add: st)
qed

lemma run_Cons:
  "fst (run opts (ev # evs) (s, [])) = fst (run opts evs (fst (step opts ev s), []))"
  "snd (run opts (ev # evs) (s, [])) = snd (step opts ev s) @ snd (run opts evs (fst (step opts ev s), []))"
proof -
  obtain s' es' where st: "step opts ev s = (s', es')" by (cases "step opts ev s")
  show "fst (run opts (ev # evs) (s, [])) = fst (run opts evs (fst (step opts ev s), []))"
    using run_fst_acc[of opts evs s' es'] by (simp add: st)
  show "snd (run opts (ev # evs) (s, [])) = snd (step opts ev s) @ snd (run opts evs (fst (step opts ev s), []))"
    using run_snd_acc[of opts evs s' es'] by (simp add: st)
qed

lemma guarded_run:
  assumes "hasCompleted s \<or> \<not> truthy (runId s)" "list_all finishing evs"
  shows "fst (run opts evs (s, [])) = s
       \<and> outbound (snd (run opts evs (s, []))) = []
       \<and> callbacks (snd (run opts evs (s, []))) = []
       \<and> list_all is_console (snd (run opts evs (s, [])))"
  using assms
proof (induction evs)
  case Nil
  then show ?case by simp
next
  case (Cons ev evs)
  from Cons.prems have g: "hasCompleted s \<or> \<not> truthy (runId s)" and f: "finishing ev"
    and fs: "list_all finishing evs" by simp_all
  note st = guarded_step[OF g f, of opts]
  show ?case using Cons.IH[OF g fs] st by (simp add: run_Cons del: run.simps)
qed

lemma done_run_silent:
  assumes "hasCompleted s" "list_all finishing evs" "\<not> debug opts"
  shows "snd (run opts evs (s, [])) = []"
  using assms
proof (induction evs)
  case Nil
  then show ?case by simp
next
  case (Cons ev evs)
  hence f: "finishing ev" and fs: "list_all finishing evs" by simp_all
  have "fst (step opts ev s) = s" using guarded_step(1)[of s ev opts] Cons.prems(1) f by simp
  thus ?case using Cons.IH[OF Cons.prems(1) fs Cons.prems(3)] done_step_silent[OF Cons.prems(1) f Cons.prems(3)]
    by (simp add: run_Cons del: run.simps)
qed

lemma at_most_one_envelope:
  assumes "list_all finishing evs"
  shows "length (outbound (snd (run opts evs (s, [])))) \<le> 1"
proof (cases evs)
  case Nil
  then show ?thesis by simp
next
  case (Cons ev rest)
  with assms have f: "finishing ev" and fs: "list_all finishing rest" by simp_all
  from guarded_run[OF finishing_step(1)[OF f] fs, of opts opts s]
  have "outbound (snd (run opts rest (fst (step opts ev s), []))) = []" by simp
  thus ?thesis using finishing_step(2)[OF f, of opts s] by (simp add: Cons run_Cons del: run.simps)
qed

lemma first_complete:
  assumes "\<not> hasCompleted s" "truthy (runId s)" "parentWindow s = Some w"
  shows "fst (complete opts out s) = s\<lparr>hasCompleted := True, status := Completed\<rparr>"
    and "outbound (snd (complete opts out s)) =
           [PostMessage w (envelope ''BRIXEL_COMPLETE'' [(''runId'', runId s), (''output'', out)])
              (targetOrigin opts)]"
    and "callbacks (snd (complete opts out s)) = []"
  using assms by (simp_all add: complete_def postToParent_def)

lemma first_cancel:
  assumes "\<not> hasCompleted s" "truthy (runId s)" "parentWindow s = Some w"
  shows "fst (cancel opts reason s) = s\<lparr>hasCompleted := True, status := Cancelled\<rparr>"
    and "outbound (snd (cancel opts reason s)) =
           [PostMessage w (envelope ''BRIXEL_CANCEL'' [(''runId'', runId s), (''reason'', reason)])
              (targetOrigin opts)]"
    and "callbacks (snd (cancel opts reason s)) = []"
  using assms by (simp_all add: cancel_def postToParent_def)

subsection \<open>The message handler\<close>

lemma lookup_prop_string: "lookup_prop m k = JStr t \<Longrightarrow> truthy m \<and> typeof m = ''object''"
  by (cases m) simp_all

lemma handleMessage_init:
  assumes "lookup_prop m ''type'' = JStr ''BRIXEL_INIT''"
  shows "handleMessage opts m s =
           handleInit opts (lookup_prop m ''payload'') s (debugLog opts ''Received message:'' m)"
  using assms lookup_prop_string[OF assms] by (simp add: handleMessage_def Let_def)

lemma handleMessage_update_inputs:
  assumes "lookup_prop m ''type'' = JStr ''BRIXEL_UPDATE_INPUTS''"
  shows "handleMessage opts m s =
           handleUpdateInputs opts (lookup_prop m ''payload'') s (debugLog opts ''Received message:'' m)"
  using assms lookup_prop_string[OF assms] by (simp add: handleMessage_def Let_def)

lemma handleMessage_destroy:
  assumes "lookup_prop m ''type'' = JStr ''BRIXEL_DESTROY''"
  shows "handleMessage opts m s = handleDestroy opts s (debugLog opts ''Received message:'' m)"
  using assms lookup_prop_string[OF assms] by (simp add: handleMessage_def Let_def)

lemma lookup_InitMessage [simp]:
  "lookup_prop (InitMessage r i c md) ''type'' = JStr ''BRIXEL_INIT''"
  "lookup_prop (InitMessage r i c md) ''payload''
     = JObj [(''runId'', r), (''inputs'', i), (''context'', c), (''renderMode'', md)]"
  by (simp_all add: InitMessage_def envelope_def)

lemma lookup_UpdateInputsMessage [simp]:
  "lookup_prop (UpdateInputsMessage r u) ''type'' = JStr ''BRIXEL_UPDATE_INPUTS''"
  "lookup_prop (UpdateInputsMessage r u) ''payload'' = JObj [(''runId'', r), (''inputs'', u)]"
  by (simp_all add: UpdateInputsMessage_def envelope_def)

lemma lookup_DestroyMessage [simp]:
  "lookup_prop (DestroyMessage r) ''type'' = JStr ''BRIXEL_DESTROY''"
  "lookup_prop (DestroyMessage r) ''payload'' = JObj [(''runId'', r)]"
  by (simp_all add: DestroyMessage_def envelope_def)

lemma throws_handleInit [simp]:
  "throws (handleInit opts v s es) \<longleftrightarrow> nullish v"
  by (simp add: handleInit_def Let_def)

lemma throws_handleUpdateInputs [simp]:
  "throws (handleUpdateInputs opts v s es) \<longleftrightarrow> nullish v"
  by (simp add: handleUpdateInputs_def Let_def)

lemma throws_handleDestroy [simp]: "\<not> throws (handleDestroy opts s es)"
  by (simp add: handleDestroy_def)

lemma unrecognized_message_inert:
  assumes "\<not> truthy m \<or> typeof m \<noteq> ''object'' \<or> \<not> truthy (lookup_prop m ''type'')
         \<or> (\<exists>str. lookup_prop m ''type'' = JStr str
                \<and> (take 7 str \<noteq> ''BRIXEL_''
                   \<or> str \<notin> {''BRIXEL_INIT'', ''BRIXEL_UPDATE_INPUTS'', ''BRIXEL_DESTROY''}))"
  shows "state_of (handleMessage opts m s) = s
       \<and> \<not> throws (handleMessage opts m s)
       \<and> outbound (effects_of (handleMessage opts m s)) = []
       \<and> callbacks (effects_of (handleMessage opts m s)) = []
       \<and> list_all is_console (effects_of (handleMessage opts m s))"
  using assms by (auto simp: handleMessage_def Let_def split: if_splits)

lemma handleMessage_throws_iff:
  "throws (handleMessage opts m s) \<longleftrightarrow>
     (truthy m \<and> typeof m = ''object'' \<and> truthy (lookup_prop m ''type'')
        \<and> (\<forall>str. lookup_prop m ''type'' \<noteq> JStr str))
   \<or> ((lookup_prop m ''type'' = JStr ''BRIXEL_INIT''
        \<or> lookup_prop m ''type'' = JStr ''BRIXEL_UPDATE_INPUTS'')
       \<and> nullish (lookup_prop m ''payload''))"
proof (cases "\<not> truthy m \<or> typeof m \<noteq> ''object'' \<or> \<not> truthy (lookup_prop m ''type'')")
  case True
  hence "\<not> throws (handleMessage opts m s)" by (auto simp: handleMessage_def)
  moreover from True have "\<And>t. lookup_prop m ''type'' \<noteq> JStr (CHR ''B'' # t)"
    using lookup_prop_string[of m "''type''"] by auto
  ultimately show ?thesis using True by auto
next
  case False
  show ?thesis
  proof (cases "lookup_prop m ''type''")
    case (JStr str)
    with False show ?thesis by (simp add: handleMessage_def Let_def)
  qed (use False in \<open>simp_all add: handleMessage_def\<close>)
qed

lemma parentWindow_handleMessage:
  "parentWindow (state_of (handleMessage opts m s)) = parentWindow s"
  by (simp add: handleMessage_def Let_def handleInit_def handleUpdateInputs_def
        handleDestroy_def split: sum.splits)

lemma parentWindow_step: "parentWindow (fst (step opts ev s)) = parentWindow s"
  by (cases ev)
     (simp_all add: parentWindow_handleMessage complete_def cancel_def setHeight_def log_def)

lemma parentWindow_run: "parentWindow (fst (run opts evs (s, es))) = parentWindow s"
proof (induction evs arbitrary: s es)
  case Nil
  then show ?case by simp
next
  case (Cons ev evs)
  obtain s' es' where st: "step opts ev s = (s', es')" by (cases "step opts ev s")
  hence "parentWindow s' = parentWindow s" using parentWindow_step[of opts ev s] by simp
  thus ?case using Cons.IH[of s' "es @ es'"] by (simp add: st)
qed

text \<open>
  On a mounted hook the parent window is set, whatever happened since: the envelopes
  below are really posted.
\<close>

lemma parentWindow_mounted:
  "parentWindow (fst (run opts evs (mount opts inIframe)))
     = Some (if inIframe then ParentWindow else SelfWindow)"
proof -
  obtain s es where m: "mount opts inIframe = (s, es)" by (cases "mount opts inIframe")
  hence "parentWindow s = Some (if inIframe then ParentWindow else SelfWindow)"
    by (auto simp: mount_def Let_def)
  thus ?thesis using parentWindow_run[of opts evs s es] by (simp add: m)
qed

subsection \<open>The fixtures\<close>

lemma example_mounted_eq:
  "example_mounted =
     \<lparr>inputs = JNull, context' = JNull, status = Initializing, renderMode = JNull,
      runId = JNull, isEmbedded = True, parentWindow = Some ParentWindow, hasCompleted = False\<rparr>"
  by (simp add: example_mounted_def mount_def initial_def Let_def)

lemma example_ready_eq:
  "example_ready =
     \<lparr>inputs = JObj [(''a'', JNum 1), (''b'', JNum 2)], context' = JNull, status = Ready,
      renderMode = JStr ''interaction'', runId = JStr ''run-1'', isEmbedded = True,
      parentWindow = Some ParentWindow, hasCompleted = False\<rparr>"
  by (simp add: example_ready_def example_options_def mount_def initial_def
        handleMessage_init handleInit_def nullish_def debugLog_def postToParent_def Let_def)

lemma example_completed_eq:
  "example_completed =
     \<lparr>inputs = JObj [(''a'', JNum 1), (''b'', JNum 2)], context' = JNull, status = Completed,
      renderMode = JStr ''interaction'', runId = JStr ''run-1'', isEmbedded = True,
      parentWindow = Some ParentWindow, hasCompleted = True\<rparr>"
  by (simp add: example_completed_def example_ready_eq complete_def)

lemma string_of_nat_404: "string_of_nat 404 = ''404''"
  by (simp add: string_of_nat.simps digit_char_def)


section \<open>The session state machine\<close>

text \<open>
  Claim C1 (at-most-once completion). Take any sequence of \<^verbatim>\<open>complete\<close>/\<^verbatim>\<open>cancel\<close>
  calls. When the first call is made while \<^verbatim>\<open>hasCompleted\<close> is false and
  \<^verbatim>\<open>runId\<close> is set (truthy, which is what the guard \<^verbatim>\<open>!runId\<close> tests) on a
  mounted hook, the whole sequence posts exactly one envelope, the
  \<^verbatim>\<open>BRIXEL_COMPLETE\<close> or \<^verbatim>\<open>BRIXEL_CANCEL\<close> of that first call with the Run's id,
  and ends in the state of the first call: \<^verbatim>\<open>hasCompleted\<close> set and status
  \<^verbatim>\<open>completed\<close> or \<^verbatim>\<open>cancelled\<close>. Once \<^verbatim>\<open>hasCompleted\<close> is set, every sequence of
  such calls leaves the state as it is, posts nothing and invokes no callback; with
  debugging off it has no effect at all (with debugging on it only writes to the
  console). From any state whatever, a sequence of such calls posts at most one envelope.
\<close>

theorem at_most_once_completion:
  assumes "list_all finishing evs"
  shows "(\<not> hasCompleted s \<and> truthy (runId s) \<and> parentWindow s = Some w \<longrightarrow>
            fst (run opts (CallComplete out # evs) (s, []))
              = s\<lparr>hasCompleted := True, status := Completed\<rparr>
          \<and> outbound (snd (run opts (CallComplete out # evs) (s, [])))
              = [PostMessage w
                   (envelope ''BRIXEL_COMPLETE'' [(''runId'', runId s), (''output'', out)])
                   (targetOrigin opts)]
          \<and> fst (run opts (CallCancel reason # evs) (s, []))
              = s\<lparr>hasCompleted := True, status := Cancelled\<rparr>
          \<and> outbound (snd (run opts (CallCancel reason # evs) (s, [])))
              = [PostMessage w
                   (envelope ''BRIXEL_CANCEL'' [(''runId'', runId s), (''reason'', reason)])
                   (targetOrigin opts)])
       \<and> (hasCompleted s \<longrightarrow>
            fst (run opts evs (s, [])) = s
          \<and> outbound (snd (run opts evs (s, []))) = []
          \<and> callbacks (snd (run opts evs (s, []))) = []
          \<and> (\<not> debug opts \<longrightarrow> snd (run opts evs (s, [])) = []))
       \<and> length (outbound (snd (run opts evs (s, [])))) \<le> 1"
proof (intro conjI impI)
  assume h: "\<not> hasCompleted s \<and> truthy (runId s) \<and> parentWindow s = Some w"
  hence a: "\<not> hasCompleted s" "truthy (runId s)" "parentWindow s = Some w" by simp_all
  let ?c = "s\<lparr>hasCompleted := True, status := Completed\<rparr>"
  let ?k = "s\<lparr>hasCompleted := True, status := Cancelled\<rparr>"
  have gc: "hasCompleted ?c \<or> \<not> truthy (runId ?c)" by simp
  have gk: "hasCompleted ?k \<or> \<not> truthy (runId ?k)" by simp
  show "fst (run opts (CallComplete out # evs) (s, [])) = ?c"
    using guarded_run[OF gc assms, of opts] first_complete(1)[OF a, of opts out]
    by (simp add: run_Cons del: run.simps)
  show "outbound (snd (run opts (CallComplete out # evs) (s, []))) =
          [PostMessage w (envelope ''BRIXEL_COMPLETE'' [(''runId'', runId s), (''output'', out)])
             (targetOrigin opts)]"
    using guarded_run[OF gc assms, of opts] first_complete(1,2)[OF a, of opts out]
    by (simp add: run_Cons del: run.simps)
  show "fst (run opts (CallCancel reason # evs) (s, [])) = ?k"
    using guarded_run[OF gk assms, of opts] first_cancel(1)[OF a, of opts reason]
    by (simp add: run_Cons del: run.simps)
  show "outbound (snd (run opts (CallCancel reason # evs) (s, []))) =
          [PostMessage w (envelope ''BRIXEL_CANCEL'' [(''runId'', runId s), (''reason'', reason)])
             (targetOrigin opts)]"
    using guarded_run[OF gk assms, of opts] first_cancel(1,2)[OF a, of opts reason]
    by (simp add: run_Cons del: run.simps)
next
  assume h: "hasCompleted s"
  hence g: "hasCompleted s \<or> \<not> truthy (runId s)" by simp
  show "fst (run opts evs (s, [])) = s" using guarded_run[OF g assms, of opts] by simp
  show "outbound (snd (run opts evs (s, []))) = []" using guarded_run[OF g assms, of opts] by simp
  show "callbacks (snd (run opts evs (s, []))) = []" using guarded_run[OF g assms, of opts] by simp
  show "snd (run opts evs (s, [])) = []" if "\<not> debug opts"
    using done_run_silent[OF h assms that] .
next
  show "length (outbound (snd (run opts evs (s, [])))) \<le> 1"
    by (rule at_most_one_envelope[OF assms])
qed

theorem at_most_once_completion_witness:
  "outbound (snd (run example_options
       [CallComplete (JStr ''A''), CallComplete (JStr ''B''), CallCancel JUndefined]
       (example_ready, [])))
     = [PostMessage ParentWindow
          (envelope ''BRIXEL_COMPLETE'' [(''runId'', JStr ''run-1''), (''output'', JStr ''A'')])
          ''*'']
   \<and> status (fst (run example_options
       [CallComplete (JStr ''A''), CallComplete (JStr ''B''), CallCancel JUndefined]
       (example_ready, []))) = Completed"
proof -
  have f: "list_all finishing [CallComplete (JStr ''B''), CallCancel JUndefined]" by simp
  have h: "\<not> hasCompleted example_ready \<and> truthy (runId example_ready)
           \<and> parentWindow example_ready = Some ParentWindow"
    by (simp add: example_ready_eq)
  have o: "targetOrigin example_options = ''*''" "runId example_ready = JStr ''run-1''"
    by (simp_all add: example_options_def example_ready_eq)
  from at_most_once_completion[OF f, of example_ready ParentWindow example_options "JStr ''A''" JUndefined] h
  show ?thesis by (simp add: o del: run.simps)
qed

text \<open>
  Claim C5 (missing-run guards). While \<^verbatim>\<open>runId\<close> is unset (falsy: \<^verbatim>\<open>null\<close> before
  any INIT, which is what the guard \<^verbatim>\<open>!runId\<close> tests), \<^verbatim>\<open>complete\<close>, \<^verbatim>\<open>cancel\<close>,
  \<^verbatim>\<open>setHeight\<close> and \<^verbatim>\<open>log\<close> leave the state as it is (so \<^verbatim>\<open>hasCompleted\<close> and the
  status keep their values), post nothing and invoke no callback. All that
  \<^verbatim>\<open>complete\<close> and \<^verbatim>\<open>cancel\<close> do is write to the local console, one
  \<^verbatim>\<open>console.error\<close> line when the Run has not completed; \<^verbatim>\<open>setHeight\<close> and
  \<^verbatim>\<open>log\<close> return silently.
\<close>

theorem missing_run_guards:
  assumes "\<not> truthy (runId s)"
  shows "fst (complete opts out s) = s
       \<and> outbound (snd (complete opts out s)) = []
       \<and> callbacks (snd (complete opts out s)) = []
       \<and> list_all is_console (snd (complete opts out s))
       \<and> (\<not> hasCompleted s \<longrightarrow>
            snd (complete opts out s) = [ConsoleError ''[BrixelSDK] Cannot complete - no runId''])
       \<and> fst (cancel opts reason s) = s
       \<and> outbound (snd (cancel opts reason s)) = []
       \<and> callbacks (snd (cancel opts reason s)) = []
       \<and> list_all is_console (snd (cancel opts reason s))
       \<and> (\<not> hasCompleted s \<longrightarrow>
            snd (cancel opts reason s) = [ConsoleError ''[BrixelSDK] Cannot cancel - no runId''])
       \<and> setHeight opts height s = (s, [])
       \<and> log opts level text extra s = (s, [])"
proof -
  have c: "complete opts out s =
             (s, if hasCompleted s
                 then debugLog opts ''Already completed, ignoring duplicate complete call'' JUndefined
                 else [ConsoleError ''[BrixelSDK] Cannot complete - no runId''])"
    using assms by (simp add: complete_def)
  have k: "cancel opts reason s =
             (s, if hasCompleted s
                 then debugLog opts ''Already completed, ignoring cancel call'' JUndefined
                 else [ConsoleError ''[BrixelSDK] Cannot cancel - no runId''])"
    using assms by (simp add: cancel_def)
  have h: "setHeight opts height s = (s, [])" using assms by (simp add: setHeight_def)
  have l: "log opts level text extra s = (s, [])" using assms by (simp add: log_def)
  show ?thesis unfolding c k h l by simp
qed

theorem missing_run_guards_witness:
  "\<not> truthy (runId example_mounted)
   \<and> complete example_options (JStr ''A'') example_mounted
       = (example_mounted, [ConsoleError ''[BrixelSDK] Cannot complete - no runId''])
   \<and> cancel example_options JUndefined example_mounted
       = (example_mounted, [ConsoleError ''[BrixelSDK] Cannot cancel - no runId''])
   \<and> setHeight example_options (JNum 300) example_mounted = (example_mounted, [])
   \<and> log example_options (JStr ''info'') (JStr ''hello'') JUndefined example_mounted
       = (example_mounted, [])"
proof -
  have h: "\<not> truthy (runId example_mounted)" by (simp add: example_mounted_eq)
  have n: "\<not> hasCompleted example_mounted" by (simp add: example_mounted_eq)
  from missing_run_guards[OF h, of example_options "JStr ''A''" JUndefined "JNum 300"
      "JStr ''info''" "JStr ''hello''" JUndefined] n h
  show ?thesis by (metis prod.collapse)
qed

text \<open>
  Claim C2 (re-initialisation resets the completion guard). A message of type
  \<^verbatim>\<open>BRIXEL_INIT\<close> with a payload is handled without a throw, in every state: the hook
  adopts the \<^verbatim>\<open>runId\<close>, \<^verbatim>\<open>inputs\<close>, \<^verbatim>\<open>context\<close> and \<^verbatim>\<open>renderMode\<close> of the
  payload, sets the status to \<^verbatim>\<open>ready\<close> and \<^verbatim>\<open>hasCompleted\<close> to false, posts nothing
  and invokes no callback. In particular, whatever came before (a completed Run too),
  when the new \<^verbatim>\<open>runId\<close> is set (truthy) on a mounted hook, the next \<^verbatim>\<open>complete\<close>
  posts exactly one \<^verbatim>\<open>BRIXEL_COMPLETE\<close> tagged with the new \<^verbatim>\<open>runId\<close>, and the next
  \<^verbatim>\<open>cancel\<close> exactly one \<^verbatim>\<open>BRIXEL_CANCEL\<close>.
\<close>

theorem init_resets_completion_guard:
  assumes "lookup_prop m ''type'' = JStr ''BRIXEL_INIT''"
    and "lookup_prop m ''payload'' = payload" and "\<not> nullish payload"
    and "lookup_prop payload ''runId'' = r" and "lookup_prop payload ''inputs'' = i"
    and "lookup_prop payload ''context'' = c" and "lookup_prop payload ''renderMode'' = md"
  shows "state_of (handleMessage opts m s)
           = s\<lparr>runId := r, inputs := i, context' := c, renderMode := md, status := Ready,
                hasCompleted := False\<rparr>
       \<and> \<not> throws (handleMessage opts m s)
       \<and> outbound (effects_of (handleMessage opts m s)) = []
       \<and> callbacks (effects_of (handleMessage opts m s)) = []
       \<and> (truthy r \<and> parentWindow s = Some w \<longrightarrow>
            outbound (snd (run opts [Deliver m, CallComplete out] (s, [])))
              = [PostMessage w
                   (envelope ''BRIXEL_COMPLETE'' [(''runId'', r), (''output'', out)])
                   (targetOrigin opts)]
          \<and> fst (run opts [Deliver m, CallComplete out] (s, []))
              = s\<lparr>runId := r, inputs := i, context' := c, renderMode := md,
                   status := Completed, hasCompleted := True\<rparr>
          \<and> outbound (snd (run opts [Deliver m, CallCancel reason] (s, [])))
              = [PostMessage w
                   (envelope ''BRIXEL_CANCEL'' [(''runId'', r), (''reason'', reason)])
                   (targetOrigin opts)]
          \<and> fst (run opts [Deliver m, CallCancel reason] (s, []))
              = s\<lparr>runId := r, inputs := i, context' := c, renderMode := md,
                   status := Cancelled, hasCompleted := True\<rparr>)"
proof -
  let ?s = "s\<lparr>runId := r, inputs := i, context' := c, renderMode := md, status := Ready,
               hasCompleted := False\<rparr>"
  have hm: "handleMessage opts m s =
              Returns ?s (debugLog opts ''Received message:'' m
                          @ debugLog opts ''Initialized with:''
                              (JObj [(''runId'', r), (''inputs'', i), (''context'', c)]))"
    using assms by (simp add: handleMessage_init handleInit_def Let_def)
  have st: "step opts (Deliver m) s =
              (?s, debugLog opts ''Received message:'' m
                   @ debugLog opts ''Initialized with:''
                       (JObj [(''runId'', r), (''inputs'', i), (''context'', c)]))"
    by (simp add: hm)
  have after: "truthy r \<Longrightarrow> parentWindow s = Some w \<Longrightarrow>
      \<not> hasCompleted ?s \<and> truthy (runId ?s) \<and> parentWindow ?s = Some w"
    by simp
  show ?thesis
  proof (intro conjI impI)
    show "state_of (handleMessage opts m s) = ?s" by (simp add: hm)
    show "\<not> throws (handleMessage opts m s)" by (simp add: hm)
    show "outbound (effects_of (handleMessage opts m s)) = []" by (simp add: hm)
    show "callbacks (effects_of (handleMessage opts m s)) = []" by (simp add: hm)
  next
    assume "truthy r \<and> parentWindow s = Some w"
    hence a: "\<not> hasCompleted ?s" "truthy (runId ?s)" "parentWindow ?s = Some w" by simp_all
    show "outbound (snd (run opts [Deliver m, CallComplete out] (s, [])))
            = [PostMessage w (envelope ''BRIXEL_COMPLETE'' [(''runId'', r), (''output'', out)])
                 (targetOrigin opts)]"
      using first_complete(2)[OF a, of opts out]
      by (simp add: run_Cons st del: run.simps step.simps) simp
    show "fst (run opts [Deliver m, CallComplete out] (s, []))
            = s\<lparr>runId := r, inputs := i, context' := c, renderMode := md,
                 status := Completed, hasCompleted := True\<rparr>"
      using first_complete(1)[OF a, of opts out]
      by (simp add: run_Cons st del: run.simps step.simps) simp
    show "outbound (snd (run opts [Deliver m, CallCancel reason] (s, [])))
            = [PostMessage w (envelope ''BRIXEL_CANCEL'' [(''runId'', r), (''reason'', reason)])
                 (targetOrigin opts)]"
      using first_cancel(2)[OF a, of opts reason]
      by (simp add: run_Cons st del: run.simps step.simps) simp
    show "fst (run opts [Deliver m, CallCancel reason] (s, []))
            = s\<lparr>runId := r, inputs := i, context' := c, renderMode := md,
                 status := Cancelled, hasCompleted := True\<rparr>"
      using first_cancel(1)[OF a, of opts reason]
      by (simp add: run_Cons st del: run.simps step.simps) simp
  qed
qed


theorem init_resets_completion_guard_witness:
  "hasCompleted example_completed
   \<and> state_of (handleMessage example_options
        (InitMessage (JStr ''run-2'') (JObj [(''x'', JNum 9)]) JNull (JStr ''display''))
        example_completed)
      = example_completed\<lparr>runId := JStr ''run-2'', inputs := JObj [(''x'', JNum 9)],
          context' := JNull, renderMode := JStr ''display'', status := Ready,
          hasCompleted := False\<rparr>
   \<and> outbound (snd (run example_options
        [Deliver (InitMessage (JStr ''run-2'') (JObj [(''x'', JNum 9)]) JNull (JStr ''display'')),
         CallComplete (JStr ''B'')]
        (example_completed, [])))
      = [PostMessage ParentWindow
           (envelope ''BRIXEL_COMPLETE'' [(''runId'', JStr ''run-2''), (''output'', JStr ''B'')])
           ''*'']"
proof -
  let ?m = "InitMessage (JStr ''run-2'') (JObj [(''x'', JNum 9)]) JNull (JStr ''display'')"
  let ?p = "JObj [(''runId'', JStr ''run-2''), (''inputs'', JObj [(''x'', JNum 9)]),
                  (''context'', JNull), (''renderMode'', JStr ''display'')]"
  have a: "lookup_prop ?m ''type'' = JStr ''BRIXEL_INIT''" "lookup_prop ?m ''payload'' = ?p"
    "\<not> nullish ?p" "lookup_prop ?p ''runId'' = JStr ''run-2''"
    "lookup_prop ?p ''inputs'' = JObj [(''x'', JNum 9)]" "lookup_prop ?p ''context'' = JNull"
    "lookup_prop ?p ''renderMode'' = JStr ''display''"
    by (simp_all add: nullish_def)
  have h: "truthy (JStr ''run-2'') \<and> parentWindow example_completed = Some ParentWindow"
    by (simp add: example_completed_eq)
  have c: "hasCompleted example_completed" by (simp add: example_completed_eq)
  have o: "targetOrigin example_options = ''*''" by (simp add: example_options_def)
  from init_resets_completion_guard[OF a, of example_options example_completed ParentWindow
      "JStr ''B''" JUndefined] h c o
  show ?thesis by (simp del: run.simps)
qed

text \<open>
  Claim C3 (partial input merge). On a message of type \<^verbatim>\<open>BRIXEL_UPDATE_INPUTS\<close> with a
  payload: when the prior inputs are an object and the payload's inputs are an object,
  the new inputs are an object whose properties are those of the prior inputs overridden
  by those of the payload; when there are no prior inputs (\<^verbatim>\<open>null\<close>, or any falsy
  value), the payload's inputs become the inputs; the status and every other part of the
  state keep their values; nothing is posted; and the callback invocations are exactly
  one call of the registered input-update callback with the payload's inputs as they
  came (none when no callback is registered).
\<close>

theorem partial_input_merge:
  assumes "lookup_prop m ''type'' = JStr ''BRIXEL_UPDATE_INPUTS''"
    and "lookup_prop m ''payload'' = payload" and "\<not> nullish payload"
    and "lookup_prop payload ''inputs'' = u"
  shows "(inputs s = JObj prev \<and> u = JObj part
            \<and> distinct (map fst prev) \<and> distinct (map fst part) \<longrightarrow>
            inputs (state_of (handleMessage opts m s))
              = JObj (own_props (inputs (state_of (handleMessage opts m s))))
          \<and> map_of (own_props (inputs (state_of (handleMessage opts m s))))
              = map_of prev ++ map_of part
          \<and> distinct (map fst (own_props (inputs (state_of (handleMessage opts m s))))))
       \<and> (\<not> truthy (inputs s) \<longrightarrow> inputs (state_of (handleMessage opts m s)) = u)
       \<and> status (state_of (handleMessage opts m s)) = status s
       \<and> state_of (handleMessage opts m s)
           = s\<lparr>inputs := inputs (state_of (handleMessage opts m s))\<rparr>
       \<and> \<not> throws (handleMessage opts m s)
       \<and> outbound (effects_of (handleMessage opts m s)) = []
       \<and> callbacks (effects_of (handleMessage opts m s))
           = (if onInputsUpdate opts then [InputsUpdateCall u] else [])"
proof -
  have hm: "handleMessage opts m s =
     Returns (s\<lparr>inputs := (if truthy (inputs s) then spread2 (inputs s) u else u)\<rparr>)
       (debugLog opts ''Received message:'' m
        @ (if onInputsUpdate opts then [InputsUpdateCall u] else [])
        @ debugLog opts ''Inputs updated:'' u)"
    using assms by (simp add: handleMessage_update_inputs handleUpdateInputs_def Let_def)
  show ?thesis
  proof (intro conjI impI)
    assume h: "inputs s = JObj prev \<and> u = JObj part
                 \<and> distinct (map fst prev) \<and> distinct (map fst part)"
    hence new: "inputs (state_of (handleMessage opts m s)) = spread2 (JObj prev) (JObj part)"
      by (simp add: hm)
    from h have d: "distinct (map fst prev)" "distinct (map fst part)" by simp_all
    show "inputs (state_of (handleMessage opts m s))
            = JObj (own_props (inputs (state_of (handleMessage opts m s))))"
      unfolding new by (rule spread2_is_object)
    show "map_of (own_props (inputs (state_of (handleMessage opts m s))))
            = map_of prev ++ map_of part"
      unfolding new by (rule spread2_objects(1)[OF d])
    show "distinct (map fst (own_props (inputs (state_of (handleMessage opts m s)))))"
      unfolding new by (rule spread2_objects(2)[OF d])
  next
    assume "\<not> truthy (inputs s)"
    thus "inputs (state_of (handleMessage opts m s)) = u" by (simp add: hm)
  qed (simp_all add: hm)
qed

theorem partial_input_merge_witness:
  "inputs (state_of (handleMessage example_options
       (UpdateInputsMessage (JStr ''run-1'') (JObj [(''b'', JNum 3)])) example_ready))
     = JObj [(''a'', JNum 1), (''b'', JNum 3)]
   \<and> map_of (own_props (inputs (state_of (handleMessage example_options
       (UpdateInputsMessage (JStr ''run-1'') (JObj [(''b'', JNum 3)])) example_ready))))
     = map_of [(''a'', JNum 1), (''b'', JNum 2)] ++ map_of [(''b'', JNum 3)]
   \<and> inputs (state_of (handleMessage example_options
       (UpdateInputsMessage (JStr ''run-1'') (JObj [(''x'', JNum 9)])) example_mounted))
     = JObj [(''x'', JNum 9)]
   \<and> status (state_of (handleMessage example_options
       (UpdateInputsMessage (JStr ''run-1'') (JObj [(''b'', JNum 3)])) example_ready)) = Ready
   \<and> callbacks (effects_of (handleMessage example_options
       (UpdateInputsMessage (JStr ''run-1'') (JObj [(''b'', JNum 3)])) example_ready))
     = [InputsUpdateCall (JObj [(''b'', JNum 3)])]"
proof -
  let ?m = "UpdateInputsMessage (JStr ''run-1'') (JObj [(''b'', JNum 3)])"
  let ?p = "JObj [(''runId'', JStr ''run-1''), (''inputs'', JObj [(''b'', JNum 3)])]"
  let ?n = "UpdateInputsMessage (JStr ''run-1'') (JObj [(''x'', JNum 9)])"
  let ?q = "JObj [(''runId'', JStr ''run-1''), (''inputs'', JObj [(''x'', JNum 9)])]"
  have a: "lookup_prop ?m ''type'' = JStr ''BRIXEL_UPDATE_INPUTS''" "lookup_prop ?m ''payload'' = ?p"
    "\<not> nullish ?p" "lookup_prop ?p ''inputs'' = JObj [(''b'', JNum 3)]"
    by (simp_all add: nullish_def)
  have b: "lookup_prop ?n ''type'' = JStr ''BRIXEL_UPDATE_INPUTS''" "lookup_prop ?n ''payload'' = ?q"
    "\<not> nullish ?q" "lookup_prop ?q ''inputs'' = JObj [(''x'', JNum 9)]"
    by (simp_all add: nullish_def)
  have pre: "inputs example_ready = JObj [(''a'', JNum 1), (''b'', JNum 2)]
               \<and> JObj [(''b'', JNum 3)] = JObj [(''b'', JNum 3)]
               \<and> distinct (map fst [(''a'', JNum 1), (''b'', JNum 2)])
               \<and> distinct (map fst [(''b'', JNum 3)])"
    by (simp add: example_ready_eq)
  have s1: "status example_ready = Ready" by (simp add: example_ready_eq)
  have i0: "\<not> truthy (inputs example_mounted)" by (simp add: example_mounted_eq)
  have cb: "onInputsUpdate example_options" by (simp add: example_options_def)
  have v: "inputs (state_of (handleMessage example_options ?m example_ready))
             = JObj [(''a'', JNum 1), (''b'', JNum 3)]"
    by (simp add: handleMessage_update_inputs handleUpdateInputs_def Let_def nullish_def
          example_ready_eq spread2_def assign_props_def)
  note t1 = partial_input_merge[OF a, of example_ready "[(''a'', JNum 1), (''b'', JNum 2)]"
      "[(''b'', JNum 3)]" example_options]
  from t1 pre
  have m1: "map_of (own_props (inputs (state_of (handleMessage example_options ?m example_ready))))
     = map_of [(''a'', JNum 1), (''b'', JNum 2)] ++ map_of [(''b'', JNum 3)]"
    by blast
  from t1 s1 have st: "status (state_of (handleMessage example_options ?m example_ready)) = Ready"
    by simp
  from t1 cb have c1: "callbacks (effects_of (handleMessage example_options ?m example_ready))
     = [InputsUpdateCall (JObj [(''b'', JNum 3)])]"
    by simp
  from partial_input_merge[OF b, of example_mounted "[]" "[]" example_options] i0
  have e: "inputs (state_of (handleMessage example_options ?n example_mounted))
     = JObj [(''x'', JNum 9)]"
    by blast
  from v m1 e st c1 show ?thesis by (intro conjI)
qed

text \<open>
  Claim C10 (UPDATE_INPUTS ignores the payload's \<^verbatim>\<open>runId\<close>). For every state and every
  message of type \<^verbatim>\<open>BRIXEL_UPDATE_INPUTS\<close> with a payload, whatever the \<^verbatim>\<open>runId\<close> of
  the payload (a different one, none at all) and whether or not a Run exists, the
  resulting state and the callback invocations are those of the message that carries
  the same inputs and the current \<^verbatim>\<open>runId\<close>; nothing is posted, nothing is thrown, and
  the stored \<^verbatim>\<open>runId\<close>, status, context, \<^verbatim>\<open>renderMode\<close> and \<^verbatim>\<open>hasCompleted\<close> keep
  their values. The merge and the callback do happen: the new inputs are the spread of
  the prior inputs and the payload's when there are prior inputs, and the payload's
  inputs otherwise; for objects the new inputs are an object whose properties are the
  prior ones overridden by the payload's; and the callback invocations are exactly one
  call of the registered input-update callback with the payload's inputs (none when no
  callback is registered).
\<close>

theorem update_inputs_ignores_runId:
  assumes "lookup_prop m ''type'' = JStr ''BRIXEL_UPDATE_INPUTS''"
    and "lookup_prop m ''payload'' = payload" and "\<not> nullish payload"
    and "lookup_prop payload ''inputs'' = u"
  shows "state_of (handleMessage opts m s)
           = state_of (handleMessage opts (UpdateInputsMessage (runId s) u) s)
       \<and> callbacks (effects_of (handleMessage opts m s))
           = callbacks (effects_of (handleMessage opts (UpdateInputsMessage (runId s) u) s))
       \<and> outbound (effects_of (handleMessage opts m s)) = []
       \<and> \<not> throws (handleMessage opts m s)
       \<and> runId (state_of (handleMessage opts m s)) = runId s
       \<and> status (state_of (handleMessage opts m s)) = status s
       \<and> context' (state_of (handleMessage opts m s)) = context' s
       \<and> renderMode (state_of (handleMessage opts m s)) = renderMode s
       \<and> hasCompleted (state_of (handleMessage opts m s)) = hasCompleted s
       \<and> (truthy (inputs s) \<longrightarrow>
            inputs (state_of (handleMessage opts m s)) = spread2 (inputs s) u)
       \<and> (\<not> truthy (inputs s) \<longrightarrow> inputs (state_of (handleMessage opts m s)) = u)
       \<and> (inputs s = JObj prev \<and> u = JObj part
            \<and> distinct (map fst prev) \<and> distinct (map fst part) \<longrightarrow>
            inputs (state_of (handleMessage opts m s))
              = JObj (own_props (inputs (state_of (handleMessage opts m s))))
          \<and> map_of (own_props (inputs (state_of (handleMessage opts m s))))
              = map_of prev ++ map_of part
          \<and> distinct (map fst (own_props (inputs (state_of (handleMessage opts m s))))))
       \<and> callbacks (effects_of (handleMessage opts m s))
           = (if onInputsUpdate opts then [InputsUpdateCall u] else [])"
proof -
  have hm: "handleMessage opts m s =
     Returns (s\<lparr>inputs := (if truthy (inputs s) then spread2 (inputs s) u else u)\<rparr>)
       (debugLog opts ''Received message:'' m
        @ (if onInputsUpdate opts then [InputsUpdateCall u] else [])
        @ debugLog opts ''Inputs updated:'' u)"
    using assms by (simp add: handleMessage_update_inputs handleUpdateInputs_def Let_def)
  have hr: "handleMessage opts (UpdateInputsMessage (runId s) u) s =
     Returns (s\<lparr>inputs := (if truthy (inputs s) then spread2 (inputs s) u else u)\<rparr>)
       (debugLog opts ''Received message:'' (UpdateInputsMessage (runId s) u)
        @ (if onInputsUpdate opts then [InputsUpdateCall u] else [])
        @ debugLog opts ''Inputs updated:'' u)"
    by (simp add: handleMessage_update_inputs handleUpdateInputs_def Let_def nullish_def)
  show ?thesis
  proof (intro conjI impI)
    assume h: "inputs s = JObj prev \<and> u = JObj part
                 \<and> distinct (map fst prev) \<and> distinct (map fst part)"
    hence new: "inputs (state_of (handleMessage opts m s)) = spread2 (JObj prev) (JObj part)"
      by (simp add: hm)
    from h have d: "distinct (map fst prev)" "distinct (map fst part)" by simp_all
    show "inputs (state_of (handleMessage opts m s))
            = JObj (own_props (inputs (state_of (handleMessage opts m s))))"
      unfolding new by (rule spread2_is_object)
    show "map_of (own_props (inputs (state_of (handleMessage opts m s))))
            = map_of prev ++ map_of part"
      unfolding new by (rule spread2_objects(1)[OF d])
    show "distinct (map fst (own_props (inputs (state_of (handleMessage opts m s)))))"
      unfolding new by (rule spread2_objects(2)[OF d])
  next
    assume "truthy (inputs s)"
    thus "inputs (state_of (handleMessage opts m s)) = spread2 (inputs s) u" by (simp add: hm)
  next
    assume "\<not> truthy (inputs s)"
    thus "inputs (state_of (handleMessage opts m s)) = u" by (simp add: hm)
  qed (simp_all add: hm hr)
qed

theorem update_inputs_ignores_runId_witness:
  "state_of (handleMessage example_options
       (UpdateInputsMessage (JStr ''another-run'') (JObj [(''b'', JNum 3)])) example_ready)
     = state_of (handleMessage example_options
       (UpdateInputsMessage (JStr ''run-1'') (JObj [(''b'', JNum 3)])) example_ready)
   \<and> runId (state_of (handleMessage example_options
       (UpdateInputsMessage (JStr ''another-run'') (JObj [(''b'', JNum 3)])) example_ready))
     = JStr ''run-1''
   \<and> callbacks (effects_of (handleMessage example_options
       (UpdateInputsMessage (JStr ''another-run'') (JObj [(''b'', JNum 3)])) example_ready))
     = callbacks (effects_of (handleMessage example_options
       (UpdateInputsMessage (JStr ''run-1'') (JObj [(''b'', JNum 3)])) example_ready))
   \<and> inputs (state_of (handleMessage example_options
       (UpdateInputsMessage (JStr ''another-run'') (JObj [(''b'', JNum 3)])) example_ready))
     = JObj [(''a'', JNum 1), (''b'', JNum 3)]
   \<and> map_of (own_props (inputs (state_of (handleMessage example_options
       (UpdateInputsMessage (JStr ''another-run'') (JObj [(''b'', JNum 3)])) example_ready))))
     = map_of [(''a'', JNum 1), (''b'', JNum 2)] ++ map_of [(''b'', JNum 3)]
   \<and> callbacks (effects_of (handleMessage example_options
       (UpdateInputsMessage (JStr ''another-run'') (JObj [(''b'', JNum 3)])) example_ready))
     = [InputsUpdateCall (JObj [(''b'', JNum 3)])]"
proof -
  let ?m = "UpdateInputsMessage (JStr ''another-run'') (JObj [(''b'', JNum 3)])"
  let ?p = "JObj [(''runId'', JStr ''another-run''), (''inputs'', JObj [(''b'', JNum 3)])]"
  have a: "lookup_prop ?m ''type'' = JStr ''BRIXEL_UPDATE_INPUTS''" "lookup_prop ?m ''payload'' = ?p"
    "\<not> nullish ?p" "lookup_prop ?p ''inputs'' = JObj [(''b'', JNum 3)]"
    by (simp_all add: nullish_def)
  have r: "runId example_ready = JStr ''run-1''" by (simp add: example_ready_eq)
  have i1: "inputs example_ready = JObj [(''a'', JNum 1), (''b'', JNum 2)]"
    by (simp add: example_ready_eq)
  have pre: "inputs example_ready = JObj [(''a'', JNum 1), (''b'', JNum 2)]
               \<and> JObj [(''b'', JNum 3)] = JObj [(''b'', JNum 3)]
               \<and> distinct (map fst [(''a'', JNum 1), (''b'', JNum 2)])
               \<and> distinct (map fst [(''b'', JNum 3)])"
    by (simp add: example_ready_eq)
  have cb: "onInputsUpdate example_options" by (simp add: example_options_def)
  note t = update_inputs_ignores_runId[OF a, of example_options example_ready
      "[(''a'', JNum 1), (''b'', JNum 2)]" "[(''b'', JNum 3)]"]
  from t have "truthy (inputs example_ready) \<longrightarrow>
      inputs (state_of (handleMessage example_options ?m example_ready))
        = spread2 (inputs example_ready) (JObj [(''b'', JNum 3)])"
    by blast
  hence e4: "inputs (state_of (handleMessage example_options ?m example_ready))
     = spread2 (JObj [(''a'', JNum 1), (''b'', JNum 2)]) (JObj [(''b'', JNum 3)])"
    by (simp add: i1)
  have e4': "spread2 (JObj [(''a'', JNum 1), (''b'', JNum 2)]) (JObj [(''b'', JNum 3)])
     = JObj [(''a'', JNum 1), (''b'', JNum 3)]"
    by (simp add: spread2_def assign_props_def)
  from t pre have e5: "map_of (own_props (inputs (state_of
       (handleMessage example_options ?m example_ready))))
     = map_of [(''a'', JNum 1), (''b'', JNum 2)] ++ map_of [(''b'', JNum 3)]"
    by blast
  from t have "callbacks (effects_of (handleMessage example_options ?m example_ready))
     = (if onInputsUpdate example_options then [InputsUpdateCall (JObj [(''b'', JNum 3)])] else [])"
    by blast
  hence e6: "callbacks (effects_of (handleMessage example_options ?m example_ready))
     = [InputsUpdateCall (JObj [(''b'', JNum 3)])]"
    by (simp add: cb)
  from t have e1: "state_of (handleMessage example_options ?m example_ready)
     = state_of (handleMessage example_options
         (UpdateInputsMessage (runId example_ready) (JObj [(''b'', JNum 3)])) example_ready)"
    by (rule conjunct1)
  from t have e2: "callbacks (effects_of (handleMessage example_options ?m example_ready))
     = callbacks (effects_of (handleMessage example_options
         (UpdateInputsMessage (runId example_ready) (JObj [(''b'', JNum 3)])) example_ready))"
    by blast
  from t have e3: "runId (state_of (handleMessage example_options ?m example_ready))
     = runId example_ready"
    by blast
  show ?thesis
  proof (intro conjI)
    show "state_of (handleMessage example_options ?m example_ready)
     = state_of (handleMessage example_options
       (UpdateInputsMessage (JStr ''run-1'') (JObj [(''b'', JNum 3)])) example_ready)"
      using e1 by (simp only: r)
    show "runId (state_of (handleMessage example_options ?m example_ready)) = JStr ''run-1''"
      using e3 by (simp only: r)
    show "callbacks (effects_of (handleMessage example_options ?m example_ready))
     = callbacks (effects_of (handleMessage example_options
       (UpdateInputsMessage (JStr ''run-1'') (JObj [(''b'', JNum 3)])) example_ready))"
      using e2 by (simp only: r)
    show "inputs (state_of (handleMessage example_options ?m example_ready))
     = JObj [(''a'', JNum 1), (''b'', JNum 3)]"
      using e4 e4' by simp
    show "map_of (own_props (inputs (state_of (handleMessage example_options ?m example_ready))))
     = map_of [(''a'', JNum 1), (''b'', JNum 2)] ++ map_of [(''b'', JNum 3)]"
      by (rule e5)
    show "callbacks (effects_of (handleMessage example_options ?m example_ready))
     = [InputsUpdateCall (JObj [(''b'', JNum 3)])]"
      by (rule e6)
  qed
qed

text \<open>
  Claim C9 (DESTROY frame property). A message whose type is \<^verbatim>\<open>BRIXEL_DESTROY\<close>,
  whatever else it carries, is handled without a throw, leaves the whole state as it
  is (status, \<^verbatim>\<open>runId\<close>, inputs, context, \<^verbatim>\<open>renderMode\<close>, \<^verbatim>\<open>hasCompleted\<close>), posts
  nothing, and its only callback invocation is the registered teardown callback, once.
\<close>

theorem destroy_frame:
  assumes "lookup_prop m ''type'' = JStr ''BRIXEL_DESTROY''"
  shows "state_of (handleMessage opts m s) = s
       \<and> \<not> throws (handleMessage opts m s)
       \<and> callbacks (effects_of (handleMessage opts m s))
           = (if onDestroy opts then [DestroyCall] else [])
       \<and> outbound (effects_of (handleMessage opts m s)) = []"
  using assms by (simp add: handleMessage_destroy handleDestroy_def)

theorem destroy_frame_witness:
  "state_of (handleMessage example_options (DestroyMessage (JStr ''run-1'')) example_ready)
     = example_ready
   \<and> \<not> throws (handleMessage example_options (DestroyMessage (JStr ''run-1'')) example_ready)
   \<and> callbacks (effects_of
        (handleMessage example_options (DestroyMessage (JStr ''run-1'')) example_ready))
       = [DestroyCall]
   \<and> outbound (effects_of
        (handleMessage example_options (DestroyMessage (JStr ''run-1'')) example_ready)) = []"
proof -
  have h: "lookup_prop (DestroyMessage (JStr ''run-1'')) ''type'' = JStr ''BRIXEL_DESTROY''"
    by simp
  have o: "onDestroy example_options" by (simp add: example_options_def)
  from destroy_frame[OF h, of example_options example_ready] o
  show ?thesis by simp
qed

text \<open>
  Claim C4 (unrecognised-message inertness) fails on the code where the claim says
  "never throws": the message \<^verbatim>\<open>{type: 42}\<close> has no string \<^verbatim>\<open>type\<close>, passes the
  check \<^verbatim>\<open>!message.type\<close>, and the call \<^verbatim>\<open>message.type.startsWith("BRIXEL_")\<close>
  throws a TypeError. The state is unchanged and nothing is posted or called. The
  unrecognised messages that do not throw are inert (\<open>unrecognized_message_inert\<close>),
  and \<open>handleMessage_throws_iff\<close> says when the handler throws.
\<close>

theorem handleMessage_throws_on_non_string_type:
  "handleMessage opts (JObj [(''type'', JNum 42)]) s
     = Throws (ErrorObj ''message.type.startsWith is not a function'') s []"
  by (simp add: handleMessage_def)

theorem handleMessage_throws_on_non_string_type_witness:
  "throws (handleMessage example_options (JObj [(''type'', JNum 42)]) example_ready)"
  using handleMessage_throws_on_non_string_type[of example_options example_ready] by simp


section \<open>The remote invocation\<close>

lemma executeTask_resolves: "\<exists>r. executeTask hostname fetch p = Inr r"
  by (simp add: executeTask_def split: sum.splits)

lemma executeTask_uses_fetchRequest:
  "executeTask hostname fetch p = executeTask hostname (\<lambda>r. fetch (fetchRequest hostname p)) p"
  by (simp add: executeTask_def executeTaskTry_def)

lemma executeTask_network_failure:
  "fetch (fetchRequest hostname p) = Rejects e \<Longrightarrow>
     executeTask hostname fetch p = Inr (executeTaskCatch e)"
  by (simp add: executeTask_def executeTaskTry_def)

lemma executeTask_success:
  "fetch (fetchRequest hostname p) = Resolves response \<Longrightarrow> json response = Inr d \<Longrightarrow> ok response \<Longrightarrow>
     executeTask hostname fetch p = Inr \<lparr>success = True, data = Some d, error = None\<rparr>"
  by (simp add: executeTask_def executeTaskTry_def)

lemma executeTask_http_failure:
  "fetch (fetchRequest hostname p) = Resolves response \<Longrightarrow> json response = Inr d \<Longrightarrow>
   \<not> nullish d \<Longrightarrow> \<not> ok response \<Longrightarrow>
     executeTask hostname fetch p =
       Inr \<lparr>success = False, data = None,
            error = Some
              \<lparr>code = js_or (lookup_prop d ''code'')
                        (JStr (''HTTP_'' @ string_of_nat (httpStatus response))),
               message = js_or (lookup_prop d ''message'')
                           (JStr (''Request failed with status ''
                                  @ string_of_nat (httpStatus response))),
               details = Inr (js_or (lookup_prop d ''details'') d)\<rparr>\<rparr>"
  by (simp add: executeTask_def executeTaskTry_def)

lemma executeTask_unparsable_body:
  "fetch (fetchRequest hostname p) = Resolves response \<Longrightarrow> json response = Inl e \<Longrightarrow>
     executeTask hostname fetch p = Inr (executeTaskCatch e)"
  by (simp add: executeTask_def executeTaskTry_def)

lemma executeTask_null_error_body:
  "fetch (fetchRequest hostname p) = Resolves response \<Longrightarrow> json response = Inr JNull \<Longrightarrow>
   \<not> ok response \<Longrightarrow>
     executeTask hostname fetch p = Inr (executeTaskCatch (type_error_read JNull ''code''))"
  by (simp add: executeTask_def executeTaskTry_def nullish_def)

lemma executeTask_not_found_example:
  "executeTask hostname (\<lambda>r. Resolves example_not_found) p =
     Inr \<lparr>success = False, data = None,
          error = Some \<lparr>code = JStr ''HTTP_404'', message = JStr ''not found'',
                        details = Inr (JObj [(''message'', JStr ''not found'')])\<rparr>\<rparr>"
  by (simp add: executeTask_def executeTaskTry_def example_not_found_def ok_def js_or_def
        nullish_def string_of_nat_404)

text \<open>
  Claim C6 (credential routing). For every invocation, the request given to
  \<^verbatim>\<open>fetch\<close> is as follows. With a token supplied (present and not the empty string,
  which is what \<^verbatim>\<open>if (apiToken)\<close> tests) it carries the header
  \<^verbatim>\<open>Authorization: Bearer <token>\<close> and the credential mode \<^verbatim>\<open>same-origin\<close>; with
  no token it carries no \<^verbatim>\<open>Authorization\<close> header and the mode \<^verbatim>\<open>include\<close>. In both
  cases \<^verbatim>\<open>Content-Type\<close> is \<^verbatim>\<open>application/json\<close>, and the header
  \<^verbatim>\<open>x-conversation-id\<close> is present, with the id, exactly when a conversation id is
  supplied. No header occurs twice. This request is the one \<^verbatim>\<open>executeTask\<close> sends:
  its result depends on \<^verbatim>\<open>fetch\<close> through the answer to this request only, and it
  follows that answer (a rejection there is the \<^verbatim>\<open>NETWORK_ERROR\<close> result with the
  rejection's error, a 2xx answer with a JSON body there is the success result with
  that body).
\<close>

theorem credential_routing:
  "(apiToken p = Some t \<and> t \<noteq> [] \<longrightarrow>
      map_of (headers (fetchRequest hostname p)) ''Authorization'' = Some (''Bearer '' @ t)
    \<and> credentialsMode (fetchRequest hostname p) = SameOrigin)
 \<and> (apiToken p = None \<or> apiToken p = Some [] \<longrightarrow>
      map_of (headers (fetchRequest hostname p)) ''Authorization'' = None
    \<and> credentialsMode (fetchRequest hostname p) = Include)
 \<and> map_of (headers (fetchRequest hostname p)) ''Content-Type'' = Some ''application/json''
 \<and> (conversationId p = Some c \<and> c \<noteq> [] \<longrightarrow>
      map_of (headers (fetchRequest hostname p)) ''x-conversation-id'' = Some c)
 \<and> (conversationId p = None \<or> conversationId p = Some [] \<longrightarrow>
      map_of (headers (fetchRequest hostname p)) ''x-conversation-id'' = None)
 \<and> distinct (map fst (headers (fetchRequest hostname p)))
 \<and> executeTask hostname fetch p = executeTask hostname (\<lambda>r. fetch (fetchRequest hostname p)) p
 \<and> (fetch (fetchRequest hostname p) = Rejects e \<longrightarrow>
      executeTask hostname fetch p = Inr (executeTaskCatch e))
 \<and> (fetch (fetchRequest hostname p) = Resolves response \<and> json response = Inr d
      \<and> ok response \<longrightarrow>
      executeTask hostname fetch p = Inr \<lparr>success = True, data = Some d, error = None\<rparr>)"
proof -
  show ?thesis
  proof (intro conjI impI)
    show "executeTask hostname fetch p
            = executeTask hostname (\<lambda>r. fetch (fetchRequest hostname p)) p"
      by (rule executeTask_uses_fetchRequest)
  next
    assume "fetch (fetchRequest hostname p) = Rejects e"
    thus "executeTask hostname fetch p = Inr (executeTaskCatch e)"
      by (rule executeTask_network_failure)
  next
    assume "fetch (fetchRequest hostname p) = Resolves response \<and> json response = Inr d
              \<and> ok response"
    thus "executeTask hostname fetch p = Inr \<lparr>success = True, data = Some d, error = None\<rparr>"
      using executeTask_success[of fetch hostname p response d] by blast
  qed (auto simp: fetchRequest_def provided_def Let_def update_conv' distinct_update)
qed

theorem credential_routing_witness:
  "headers (fetchRequest (Some ''app.example.com'') example_params)
     = [(''Content-Type'', ''application/json''), (''Authorization'', ''Bearer tok''),
        (''x-conversation-id'', ''conv-1'')]
   \<and> credentialsMode (fetchRequest (Some ''app.example.com'') example_params) = SameOrigin
   \<and> headers (fetchRequest (Some ''app.example.com'') example_params_bare)
     = [(''Content-Type'', ''application/json'')]
   \<and> credentialsMode (fetchRequest (Some ''app.example.com'') example_params_bare) = Include
   \<and> map_of (headers (fetchRequest (Some ''app.example.com'') example_params)) ''Authorization''
     = Some ''Bearer tok''
   \<and> map_of (headers (fetchRequest (Some ''app.example.com'') example_params_bare)) ''Authorization''
     = None
   \<and> executeTask (Some ''app.example.com'')
        (\<lambda>r. if map_of (headers r) ''Authorization'' = Some ''Bearer tok''
                  \<and> credentialsMode r = SameOrigin
              then Resolves \<lparr>httpStatus = 200, json = Inr (JStr ''done'')\<rparr>
              else Rejects (ErrorObj ''no bearer token''))
        example_params
     = Inr \<lparr>success = True, data = Some (JStr ''done''), error = None\<rparr>
   \<and> executeTask (Some ''app.example.com'')
        (\<lambda>r. if map_of (headers r) ''Authorization'' = Some ''Bearer tok''
                  \<and> credentialsMode r = SameOrigin
              then Resolves \<lparr>httpStatus = 200, json = Inr (JStr ''done'')\<rparr>
              else Rejects (ErrorObj ''no bearer token''))
        example_params_bare
     = Inr (executeTaskCatch (ErrorObj ''no bearer token''))"
proof -
  let ?fetch = "\<lambda>r. if map_of (headers r) ''Authorization'' = Some ''Bearer tok''
                  \<and> credentialsMode r = SameOrigin
              then Resolves \<lparr>httpStatus = 200, json = Inr (JStr ''done'')\<rparr>
              else Rejects (ErrorObj ''no bearer token'')"
  have t: "apiToken example_params = Some ''tok'' \<and> ''tok'' \<noteq> []"
    by (simp add: example_params_def)
  have n: "apiToken example_params_bare = None \<or> apiToken example_params_bare = Some []"
    by (simp add: example_params_bare_def)
  from credential_routing[of example_params "''tok''" "Some ''app.example.com''" "''conv-1''"] t
  have a: "map_of (headers (fetchRequest (Some ''app.example.com'') example_params)) ''Authorization''
     = Some ''Bearer tok''"
    and b: "credentialsMode (fetchRequest (Some ''app.example.com'') example_params) = SameOrigin"
    by simp_all
  from credential_routing[of example_params_bare "''tok''" "Some ''app.example.com''" "''conv-1''"] n
  have c: "map_of (headers (fetchRequest (Some ''app.example.com'') example_params_bare)) ''Authorization''
     = None"
    and d: "credentialsMode (fetchRequest (Some ''app.example.com'') example_params_bare) = Include"
    by simp_all
  have e: "headers (fetchRequest (Some ''app.example.com'') example_params)
     = [(''Content-Type'', ''application/json''), (''Authorization'', ''Bearer tok''),
        (''x-conversation-id'', ''conv-1'')]"
    by (simp add: fetchRequest_def example_params_def provided_def)
  have f: "headers (fetchRequest (Some ''app.example.com'') example_params_bare)
     = [(''Content-Type'', ''application/json'')]"
    by (simp add: fetchRequest_def example_params_bare_def provided_def)
  have okr: "json \<lparr>httpStatus = 200, json = Inr (JStr ''done'')\<rparr> = Inr (JStr ''done'')
             \<and> ok \<lparr>httpStatus = 200, json = Inr (JStr ''done'')\<rparr>"
    by (simp add: ok_def)
  have fa: "?fetch (fetchRequest (Some ''app.example.com'') example_params)
              = Resolves \<lparr>httpStatus = 200, json = Inr (JStr ''done'')\<rparr>"
    using a b by simp
  have fb: "?fetch (fetchRequest (Some ''app.example.com'') example_params_bare)
              = Rejects (ErrorObj ''no bearer token'')"
    using c by simp
  from credential_routing[where p = example_params and hostname = "Some ''app.example.com''"
      and fetch = ?fetch and response = "\<lparr>httpStatus = 200, json = Inr (JStr ''done'')\<rparr>"
      and d = "JStr ''done''"] fa okr
  have g: "executeTask (Some ''app.example.com'') ?fetch example_params
     = Inr \<lparr>success = True, data = Some (JStr ''done''), error = None\<rparr>"
    by blast
  from credential_routing[where p = example_params_bare and hostname = "Some ''app.example.com''"
      and fetch = ?fetch and e = "ErrorObj ''no bearer token''"] fb
  have h: "executeTask (Some ''app.example.com'') ?fetch example_params_bare
     = Inr (executeTaskCatch (ErrorObj ''no bearer token''))"
    by blast
  from e b f d a c g h show ?thesis by (intro conjI)
qed

text \<open>
  Claim C8 (base URL selection). For every invocation, the request goes by \<^verbatim>\<open>POST\<close> to
  \<^verbatim>\<open><baseUrl>/execute_task\<close>, where a supplied \<^verbatim>\<open>apiBaseUrl\<close> (present and not the
  empty string, which is what \<^verbatim>\<open>apiBaseUrl || ...\<close> tests) is the base URL whatever
  the hostname, and without one the base URL is the development URL on the hostnames
  \<^verbatim>\<open>localhost\<close> and \<^verbatim>\<open>127.0.0.1\<close> and the production URL on every other hostname
  (and where there is no window). This request is the one \<^verbatim>\<open>executeTask\<close> sends: its
  result depends on \<^verbatim>\<open>fetch\<close> through the answer to this request only, and it follows
  that answer (a rejection there is the \<^verbatim>\<open>NETWORK_ERROR\<close> result with the rejection's
  error, a 2xx answer with a JSON body there is the success result with that body).
\<close>

theorem base_url_selection:
  "(apiBaseUrl p = Some u \<and> u \<noteq> [] \<longrightarrow> url (fetchRequest hostname p) = u @ ''/execute_task'')
 \<and> (apiBaseUrl p = None \<or> apiBaseUrl p = Some [] \<longrightarrow>
      url (fetchRequest hostname p) = getApiBaseUrl hostname @ ''/execute_task'')
 \<and> getApiBaseUrl (Some ''localhost'') = ''http://localhost:8000/backoffice/ui-components''
 \<and> getApiBaseUrl (Some ''127.0.0.1'') = ''http://localhost:8000/backoffice/ui-components''
 \<and> (hostname \<noteq> Some ''localhost'' \<and> hostname \<noteq> Some ''127.0.0.1'' \<longrightarrow>
      getApiBaseUrl hostname = ''https://api.brixel.ai/backoffice/ui-components'')
 \<and> httpMethod (fetchRequest hostname p) = ''POST''
 \<and> executeTask hostname fetch p = executeTask hostname (\<lambda>r. fetch (fetchRequest hostname p)) p
 \<and> (fetch (fetchRequest hostname p) = Rejects e \<longrightarrow>
      executeTask hostname fetch p = Inr (executeTaskCatch e))
 \<and> (fetch (fetchRequest hostname p) = Resolves response \<and> json response = Inr d
      \<and> ok response \<longrightarrow>
      executeTask hostname fetch p = Inr \<lparr>success = True, data = Some d, error = None\<rparr>)"
proof (intro conjI impI)
  assume "apiBaseUrl p = Some u \<and> u \<noteq> []"
  thus "url (fetchRequest hostname p) = u @ ''/execute_task''"
    by (simp add: fetchRequest_def provided_def Let_def)
next
  assume "apiBaseUrl p = None \<or> apiBaseUrl p = Some []"
  thus "url (fetchRequest hostname p) = getApiBaseUrl hostname @ ''/execute_task''"
    by (auto simp: fetchRequest_def provided_def Let_def)
next
  assume "hostname \<noteq> Some ''localhost'' \<and> hostname \<noteq> Some ''127.0.0.1''"
  thus "getApiBaseUrl hostname = ''https://api.brixel.ai/backoffice/ui-components''"
    by (cases hostname) (simp_all add: getApiBaseUrl_def)
next
  show "executeTask hostname fetch p
          = executeTask hostname (\<lambda>r. fetch (fetchRequest hostname p)) p"
    by (rule executeTask_uses_fetchRequest)
next
  assume "fetch (fetchRequest hostname p) = Rejects e"
  thus "executeTask hostname fetch p = Inr (executeTaskCatch e)"
    by (rule executeTask_network_failure)
next
  assume "fetch (fetchRequest hostname p) = Resolves response \<and> json response = Inr d
            \<and> ok response"
  thus "executeTask hostname fetch p = Inr \<lparr>success = True, data = Some d, error = None\<rparr>"
    using executeTask_success[of fetch hostname p response d] by blast
qed (simp_all add: getApiBaseUrl_def fetchRequest_def Let_def)

theorem base_url_selection_witness:
  "url (fetchRequest (Some ''localhost'') example_params_bare)
     = ''http://localhost:8000/backoffice/ui-components/execute_task''
   \<and> url (fetchRequest (Some ''app.example.com'') example_params_bare)
     = ''https://api.brixel.ai/backoffice/ui-components/execute_task''
   \<and> url (fetchRequest (Some ''localhost'')
        (example_params_bare\<lparr>apiBaseUrl := Some ''https://staging.example.com/api''\<rparr>))
     = ''https://staging.example.com/api/execute_task''
   \<and> executeTask (Some ''localhost'')
        (\<lambda>r. if url r = ''http://localhost:8000/backoffice/ui-components/execute_task''
              then Resolves \<lparr>httpStatus = 200, json = Inr (JStr ''done'')\<rparr>
              else Rejects (ErrorObj ''another address''))
        example_params_bare
     = Inr \<lparr>success = True, data = Some (JStr ''done''), error = None\<rparr>
   \<and> executeTask (Some ''app.example.com'')
        (\<lambda>r. if url r = ''http://localhost:8000/backoffice/ui-components/execute_task''
              then Resolves \<lparr>httpStatus = 200, json = Inr (JStr ''done'')\<rparr>
              else Rejects (ErrorObj ''another address''))
        example_params_bare
     = Inr (executeTaskCatch (ErrorObj ''another address''))"
proof -
  let ?fetch = "\<lambda>r. if url r = ''http://localhost:8000/backoffice/ui-components/execute_task''
              then Resolves \<lparr>httpStatus = 200, json = Inr (JStr ''done'')\<rparr>
              else Rejects (ErrorObj ''another address'')"
  have n: "apiBaseUrl example_params_bare = None \<or> apiBaseUrl example_params_bare = Some []"
    by (simp add: example_params_bare_def)
  have o: "apiBaseUrl (example_params_bare\<lparr>apiBaseUrl := Some ''https://staging.example.com/api''\<rparr>)
             = Some ''https://staging.example.com/api'' \<and> ''https://staging.example.com/api'' \<noteq> []"
    by simp
  have h: "Some ''app.example.com'' \<noteq> Some ''localhost'' \<and> Some ''app.example.com'' \<noteq> Some ''127.0.0.1''"
    by simp
  from base_url_selection[of example_params_bare u "Some ''localhost''" for u] n
  have a: "url (fetchRequest (Some ''localhost'') example_params_bare)
     = ''http://localhost:8000/backoffice/ui-components/execute_task''"
    by simp
  from base_url_selection[of example_params_bare u "Some ''app.example.com''" for u] n h
  have b: "url (fetchRequest (Some ''app.example.com'') example_params_bare)
     = ''https://api.brixel.ai/backoffice/ui-components/execute_task''"
    by simp
  from base_url_selection[of "example_params_bare\<lparr>apiBaseUrl := Some ''https://staging.example.com/api''\<rparr>"
      "''https://staging.example.com/api''" "Some ''localhost''"] o
  have c: "url (fetchRequest (Some ''localhost'')
        (example_params_bare\<lparr>apiBaseUrl := Some ''https://staging.example.com/api''\<rparr>))
     = ''https://staging.example.com/api/execute_task''"
    by simp
  have okr: "json \<lparr>httpStatus = 200, json = Inr (JStr ''done'')\<rparr> = Inr (JStr ''done'')
             \<and> ok \<lparr>httpStatus = 200, json = Inr (JStr ''done'')\<rparr>"
    by (simp add: ok_def)
  have fa: "?fetch (fetchRequest (Some ''localhost'') example_params_bare)
              = Resolves \<lparr>httpStatus = 200, json = Inr (JStr ''done'')\<rparr>"
    using a by simp
  have fb: "?fetch (fetchRequest (Some ''app.example.com'') example_params_bare)
              = Rejects (ErrorObj ''another address'')"
    using b by simp
  from base_url_selection[where p = example_params_bare and hostname = "Some ''localhost''"
      and fetch = ?fetch and response = "\<lparr>httpStatus = 200, json = Inr (JStr ''done'')\<rparr>"
      and d = "JStr ''done''"] fa okr
  have g: "executeTask (Some ''localhost'') ?fetch example_params_bare
     = Inr \<lparr>success = True, data = Some (JStr ''done''), error = None\<rparr>"
    by blast
  from base_url_selection[where p = example_params_bare and hostname = "Some ''app.example.com''"
      and fetch = ?fetch and e = "ErrorObj ''another address''"] fb
  have h: "executeTask (Some ''app.example.com'') ?fetch example_params_bare
     = Inr (executeTaskCatch (ErrorObj ''another address''))"
    by blast
  from a b c g h show ?thesis by (intro conjI)
qed

text \<open>
  Claim C7 (failure normalisation) fails on the code for a response whose body is not
  JSON: \<^verbatim>\<open>response.json()\<close> is awaited before \<^verbatim>\<open>response.ok\<close> is looked at, inside
  the \<^verbatim>\<open>try\<close> block, so a 502 with an HTML body ends in the \<^verbatim>\<open>catch\<close> block and is
  reported with the code \<^verbatim>\<open>NETWORK_ERROR\<close> and the parser's message, although a response
  with a status was obtained. The parts of the claim that hold are
  \<open>executeTask_resolves\<close>, \<open>executeTask_network_failure\<close>,
  \<open>executeTask_http_failure\<close>, \<open>executeTask_success\<close> and
  \<open>executeTask_not_found_example\<close>.
\<close>

theorem executeTask_non_json_error_body:
  "executeTask hostname (\<lambda>r. Resolves example_bad_gateway) p =
     Inr \<lparr>success = False, data = None,
          error = Some \<lparr>code = JStr ''NETWORK_ERROR'',
                        message = JStr ''Unexpected token < in JSON at position 0'',
                        details = Inl (ErrorObj ''Unexpected token < in JSON at position 0'')\<rparr>\<rparr>"
  by (simp add: executeTask_def executeTaskTry_def example_bad_gateway_def executeTaskCatch_def)

theorem executeTask_non_json_error_body_witness:
  "executeTask (Some ''app.example.com'') (\<lambda>r. Resolves example_bad_gateway) example_params
     \<noteq> Inr \<lparr>success = False, data = None,
            error = Some \<lparr>code = JStr ''HTTP_502'',
                          message = JStr ''Request failed with status 502'',
                          details = Inl (ErrorObj ''Unexpected token < in JSON at position 0'')\<rparr>\<rparr>
   \<and> httpStatus example_bad_gateway = 502 \<and> \<not> ok example_bad_gateway"
  using executeTask_non_json_error_body[of "Some ''app.example.com''" example_params]
  by (simp add: example_bad_gateway_def ok_def)

end
